theory Spec2Isabelle
  imports Main
begin

section \<open>Thrown values, the process state and asynchronous methods\<close>

text \<open>
  The services throw and catch JavaScript values, and every handler reads
  \<open>error.message\<close> of what it caught. A thrown value is an \<open>Error\<close> carrying a message
  (what the database client, the cache client and the runtime's own TypeErrors produce),
  the \<open>NotFoundException\<close> of the registry's lookups, \<open>null\<close>, \<open>undefined\<close>, or any
  other value, which has no \<open>message\<close> property.
\<close>

datatype thrown =
  Error string
| NotFoundException string
| Thrown_null
| Thrown_undefined
| Thrown_other

text \<open>
  \<open>error.message\<close>: the message of an exception object, \<open>undefined\<close> (here \<open>None\<close>) for
  a value without the property, and a TypeError of its own when the value caught is
  \<open>null\<close> or \<open>undefined\<close>.
\<close>

definition message_of :: "thrown \<Rightarrow> thrown + string option" where
  "message_of err =
     (case err of
        Error m \<Rightarrow> Inr (Some m)
      | NotFoundException m \<Rightarrow> Inr (Some m)
      | Thrown_other \<Rightarrow> Inr None
      | Thrown_null \<Rightarrow> Inl (Error ''Cannot read properties of null (reading 'message')'')
      | Thrown_undefined \<Rightarrow>
          Inl (Error ''Cannot read properties of undefined (reading 'message')''))"

text \<open>
  Numbers are integers throughout: clock readings in milliseconds, byte counts and
  instance counts. The overall verdict and the two probe status types are the string
  literal unions of \<open>HealthStatus\<close>.
\<close>

datatype health = healthy | unhealthy | degraded

datatype database_status = db_connected | db_disconnected | db_error

datatype redis_status = redis_connected | redis_disconnected | redis_disabled | redis_error

text \<open>
  A logger call appends one entry: \<open>logger.error({message, error})\<close> or
  \<open>logger.debug({message, status, duration})\<close>.
\<close>

datatype log_entry =
  Log_error string "string option"
| Log_debug string health int

text \<open>
  The mutable world an invocation runs in: how many times the clock has been read, the
  state of the cache collaborator (of any type \<open>'c\<close>), and the log written so far.
\<close>

record 'c world =
  ticks :: nat
  cache_state :: 'c
  log :: "log_entry list"

text \<open>
  What becomes of a promise: it resolves with a value, it rejects with what was thrown, or
  it never settles. Nothing in the services bounds the time of a call they await.
\<close>

datatype 'a outcome = Resolved (resolved: 'a) | Rejected thrown | Pending

text \<open>
  An \<open>async\<close> method is a function from the world to the outcome of its promise and the
  world it leaves.
\<close>

type_synonym ('c, 'a) io = "'c world \<Rightarrow> 'a outcome \<times> 'c world"

definition return_io :: "'a \<Rightarrow> ('c, 'a) io" where
  "return_io x w = (Resolved x, w)"

definition throw_io :: "thrown \<Rightarrow> ('c, 'a) io" where
  "throw_io e w = (Rejected e, w)"

definition bind_io :: "('c, 'a) io \<Rightarrow> ('a \<Rightarrow> ('c, 'b) io) \<Rightarrow> ('c, 'b) io" where
  "bind_io m f w =
     (case m w of
        (Resolved x, w') \<Rightarrow> f x w'
      | (Rejected e, w') \<Rightarrow> (Rejected e, w')
      | (Pending, w') \<Rightarrow> (Pending, w'))"

definition try_catch :: "('c, 'a) io \<Rightarrow> (thrown \<Rightarrow> ('c, 'a) io) \<Rightarrow> ('c, 'a) io" where
  "try_catch m handler w =
     (case m w of
        (Resolved x, w') \<Rightarrow> (Resolved x, w')
      | (Rejected e, w') \<Rightarrow> handler e w'
      | (Pending, w') \<Rightarrow> (Pending, w'))"

text \<open>A synchronous step: it returns or throws, and leaves the world alone.\<close>

definition sync :: "thrown + 'a \<Rightarrow> ('c, 'a) io" where
  "sync r w = (case r of Inl e \<Rightarrow> (Rejected e, w) | Inr x \<Rightarrow> (Resolved x, w))"

definition logger_error :: "string \<Rightarrow> string option \<Rightarrow> ('c, unit) io" where
  "logger_error msg err w = (Resolved (), w\<lparr>log := log w @ [Log_error msg err]\<rparr>)"

definition logger_debug :: "string \<Rightarrow> health \<Rightarrow> int \<Rightarrow> ('c, unit) io" where
  "logger_debug msg st duration w =
     (Resolved (), w\<lparr>log := log w @ [Log_debug msg st duration]\<rparr>)"

section \<open>The data of the health service\<close>

text \<open>
  \<open>HealthStatus['database']\<close> and \<open>HealthStatus['redis']\<close> have the same three fields and
  differ in the status type; \<open>responseTime\<close> and \<open>error\<close> are optional.
\<close>

record 's probe =
  status :: 's
  responseTime :: "int option"
  error :: "string option"

record instance_stats =
  total :: int
  active :: int
  inactive :: int

text \<open>
  \<open>percentage\<close> is \<open>Math.round((used / total) * 100)\<close>, \<open>None\<close> where that is not a
  finite number.
\<close>

record memory_info =
  used :: int
  mem_total :: int
  percentage :: "int option"

record system_info =
  nodeVersion :: string
  platform :: string
  arch :: string

text \<open>
  The \<open>status\<close> field of \<open>HealthStatus\<close> is named \<open>overall\<close> here (the probes have a
  \<open>status\<close> field of their own); \<open>timestamp\<close> holds the clock reading whose ISO-8601
  rendering the source stores.
\<close>

record HealthStatus =
  overall :: health
  version :: string
  timestamp :: int
  uptime :: int
  database :: "database_status probe"
  redis :: "redis_status probe"
  instances :: instance_stats
  memory :: memory_info
  system :: system_info

record MetricsData =
  system_uptime_seconds :: int
  system_memory_usage_bytes :: int
  system_memory_total_bytes :: int
  app_instances_total :: int
  app_instances_active :: int
  app_instances_inactive :: int
  database_connection_status :: int
  database_response_time_ms :: int
  redis_connection_status :: int
  redis_response_time_ms :: int

section \<open>The collaborators of the health service\<close>

text \<open>
  An instance handle as the statistics read it: \<open>instance?.connectionStatus?.state\<close>.
  An entry of \<open>waInstances\<close> may hold no handle, a handle may have no connection
  status, and a connection status may have no state.
\<close>

record connection_status =
  state :: "string option"

record instance_handle =
  connectionStatus :: "connection_status option"

text \<open>
  \<open>configService.get('CACHE')\<close> may yield \<open>undefined\<close> or \<open>null\<close>, and so may the
  \<open>REDIS\<close> section of what it yields; \<open>ENABLED\<close> is read for its truthiness.
\<close>

datatype 'a looked_up = Undefined | Null | Defined 'a

record redis_config =
  ENABLED :: bool

record cache_config =
  REDIS :: "redis_config looked_up"

record process_memory =
  heapTotal :: int
  heapUsed :: int
  external :: int

text \<open>
  Everything the service reaches outside itself, each collaborator with any behaviour:
  the clock (its n-th reading), the outcome of the database round trip, the outcome of
  the configuration lookup, the three cache operations acting on the cache's state, the
  registry's table (its own keys in order, or what reading it throws), and the runtime's
  introspection. The awaited calls (the database query and the cache operations) may
  resolve, reject or never settle; the synchronous ones return or throw.
  \<open>round_percentage used total\<close> is the runtime's floating-point computation
  \<open>Math.round((used / total) * 100)\<close>, taken as given. \<open>startTime\<close> is the field the
  constructor sets.
\<close>

record 'c env =
  clock :: "nat \<Rightarrow> int"
  startTime :: int
  npm_package_version :: "string option"
  queryRaw :: "unit outcome"
  config_get_CACHE :: "thrown + cache_config looked_up"
  cache_set :: "string \<Rightarrow> string \<Rightarrow> int \<Rightarrow> 'c \<Rightarrow> unit outcome \<times> 'c"
  cache_get :: "string \<Rightarrow> 'c \<Rightarrow> string option outcome \<times> 'c"
  cache_delete :: "string \<Rightarrow> 'c \<Rightarrow> unit outcome \<times> 'c"
  waInstances :: "thrown + (string \<times> instance_handle option) list"
  memoryUsage :: process_memory
  round_percentage :: "int \<Rightarrow> int \<Rightarrow> int option"
  process_version :: string
  process_platform :: string
  process_arch :: string

section \<open>Rendering numbers and joining lines\<close>

text \<open>
  A template string and \<open>'health_check_' + Date.now()\<close> render an integer in decimal,
  with a leading minus sign when it is negative. \<open>digit_char\<close> is applied to digits only.
\<close>

definition digit_char :: "nat \<Rightarrow> char" where
  "digit_char d = ''0123456789'' ! d"

fun digits_of_nat :: "nat \<Rightarrow> string" where
  "digits_of_nat n =
     (if n < 10 then [digit_char n] else digits_of_nat (n div 10) @ [digit_char (n mod 10)])"

declare digits_of_nat.simps [simp del]

definition string_of_number :: "int \<Rightarrow> string" where
  "string_of_number i =
     (if i < 0 then CHR ''-'' # digits_of_nat (nat (- i)) else digits_of_nat (nat i))"

text \<open>\<open>Array.prototype.join\<close>.\<close>

fun join :: "string \<Rightarrow> string list \<Rightarrow> string" where
  "join sep [] = []"
| "join sep [x] = x"
| "join sep (x # y # ys) = x @ sep @ join sep (y # ys)"

section \<open>The health service\<close>

definition Date_now :: "'c env \<Rightarrow> ('c, int) io" where
  "Date_now env w = (Resolved (clock env (ticks w)), w\<lparr>ticks := Suc (ticks w)\<rparr>)"

text \<open>Awaiting a collaborator whose outcome does not touch the world.\<close>

definition await :: "'a outcome \<Rightarrow> ('c, 'a) io" where
  "await result w = (result, w)"

text \<open>Awaiting a cache operation: it acts on the cache's state.\<close>

definition cache_call :: "('c \<Rightarrow> 'a outcome \<times> 'c) \<Rightarrow> ('c, 'a) io" where
  "cache_call operation w =
     (case operation (cache_state w) of (r, c') \<Rightarrow> (r, w\<lparr>cache_state := c'\<rparr>))"

text \<open>
  In each \<open>catch\<close> block \<open>error.message\<close> is read where the source reads it: for the
  logger call first, and again for the \<open>error\<close> field of the result.
\<close>

definition checkDatabaseHealth :: "'c env \<Rightarrow> ('c, database_status probe) io" where
  "checkDatabaseHealth env =
     bind_io (Date_now env) (\<lambda>startTime'.
       try_catch
         (bind_io (await (queryRaw env)) (\<lambda>_.
          bind_io (Date_now env) (\<lambda>now.
          return_io \<lparr>status = db_connected, responseTime = Some (now - startTime'),
                     error = None\<rparr>)))
         (\<lambda>err.
          bind_io (sync (message_of err)) (\<lambda>logged.
          bind_io (logger_error ''Database health check failed'' logged) (\<lambda>_.
          bind_io (Date_now env) (\<lambda>now.
          bind_io (sync (message_of err)) (\<lambda>msg.
          return_io \<lparr>status = db_error, responseTime = Some (now - startTime'),
                     error = msg\<rparr>))))))"

text \<open>
  \<open>this.configService.get('CACHE').REDIS\<close>, then \<open>redisConfig.ENABLED\<close>: reading a
  property of \<open>undefined\<close> or of \<open>null\<close> throws a TypeError, an \<open>Error\<close> with the
  engine's message.
\<close>

definition get_redisConfig :: "'c env \<Rightarrow> ('c, redis_config looked_up) io" where
  "get_redisConfig env =
     (case config_get_CACHE env of
        Inl e \<Rightarrow> throw_io e
      | Inr Undefined \<Rightarrow>
          throw_io (Error ''Cannot read properties of undefined (reading 'REDIS')'')
      | Inr Null \<Rightarrow>
          throw_io (Error ''Cannot read properties of null (reading 'REDIS')'')
      | Inr (Defined c) \<Rightarrow> return_io (REDIS c))"

definition read_ENABLED :: "redis_config looked_up \<Rightarrow> ('c, bool) io" where
  "read_ENABLED redisConfig =
     (case redisConfig of
        Undefined \<Rightarrow>
          throw_io (Error ''Cannot read properties of undefined (reading 'ENABLED')'')
      | Null \<Rightarrow>
          throw_io (Error ''Cannot read properties of null (reading 'ENABLED')'')
      | Defined c \<Rightarrow> return_io (ENABLED c))"

definition checkRedisHealth :: "'c env \<Rightarrow> ('c, redis_status probe) io" where
  "checkRedisHealth env =
     bind_io (get_redisConfig env) (\<lambda>redisConfig.
     bind_io (read_ENABLED redisConfig) (\<lambda>enabled.
       if \<not> enabled
       then return_io \<lparr>status = redis_disabled, responseTime = None, error = None\<rparr>
       else
         bind_io (Date_now env) (\<lambda>startTime'.
           try_catch
             (bind_io (Date_now env) (\<lambda>t.
              let testKey = ''health_check_'' @ string_of_number t in
              bind_io (cache_call (cache_set env testKey ''test'' 1)) (\<lambda>_.
              bind_io (cache_call (cache_get env testKey)) (\<lambda>_.
              bind_io (cache_call (cache_delete env testKey)) (\<lambda>_.
              bind_io (Date_now env) (\<lambda>now.
              return_io \<lparr>status = redis_connected, responseTime = Some (now - startTime'),
                         error = None\<rparr>))))))
             (\<lambda>err.
              bind_io (sync (message_of err)) (\<lambda>logged.
              bind_io (logger_error ''Redis health check failed'' logged) (\<lambda>_.
              bind_io (Date_now env) (\<lambda>now.
              bind_io (sync (message_of err)) (\<lambda>msg.
              return_io \<lparr>status = redis_error, responseTime = Some (now - startTime'),
                         error = msg\<rparr>))))))))"

text \<open>\<open>instance?.connectionStatus?.state === 'open'\<close>.\<close>

definition state_of :: "instance_handle option \<Rightarrow> string option" where
  "state_of inst =
     (case inst of
        None \<Rightarrow> None
      | Some h \<Rightarrow> (case connectionStatus h of None \<Rightarrow> None | Some cs \<Rightarrow> state cs))"

definition is_open :: "instance_handle option \<Rightarrow> bool" where
  "is_open inst = (state_of inst = Some ''open'')"

text \<open>
  \<open>waInstances[instanceName]\<close>: the entry stored under a key, nothing when the key is
  absent.
\<close>

definition lookup_instance ::
  "(string \<times> instance_handle option) list \<Rightarrow> string \<Rightarrow> instance_handle option" where
  "lookup_instance table name = (case map_of table name of None \<Rightarrow> None | Some inst \<Rightarrow> inst)"

text \<open>The \<open>for ... of\<close> loop over the keys, with its two counters.\<close>

fun count_instances ::
  "(string \<times> instance_handle option) list \<Rightarrow> string list \<Rightarrow> int \<times> int \<Rightarrow> int \<times> int" where
  "count_instances table [] (act, inact) = (act, inact)"
| "count_instances table (instanceName # rest) (act, inact) =
     (if is_open (lookup_instance table instanceName)
      then count_instances table rest (act + 1, inact)
      else count_instances table rest (act, inact + 1))"

definition getInstanceStatistics :: "'c env \<Rightarrow> ('c, instance_stats) io" where
  "getInstanceStatistics env =
     try_catch
       (bind_io (sync (waInstances env)) (\<lambda>table.
          let instanceNames = map fst table;
              counted = count_instances table instanceNames (0, 0)
          in return_io \<lparr>total = int (length instanceNames), active = fst counted,
                        inactive = snd counted\<rparr>))
       (\<lambda>err.
          bind_io (sync (message_of err)) (\<lambda>logged.
          bind_io (logger_error ''Failed to get instance statistics'' logged) (\<lambda>_.
          return_io \<lparr>total = 0, active = 0, inactive = 0\<rparr>)))"

definition getMemoryUsage :: "'c env \<Rightarrow> memory_info" where
  "getMemoryUsage env =
     (let memUsage = memoryUsage env;
          totalMemory = heapTotal memUsage + external memUsage;
          usedMemory = heapUsed memUsage
      in \<lparr>used = usedMemory, mem_total = totalMemory,
          percentage = round_percentage env usedMemory totalMemory\<rparr>)"

definition getSystemInfo :: "'c env \<Rightarrow> system_info" where
  "getSystemInfo env =
     \<lparr>nodeVersion = process_version env, platform = process_platform env,
      arch = process_arch env\<rparr>"

definition determineOverallStatus ::
  "database_status probe \<Rightarrow> redis_status probe \<Rightarrow> health" where
  "determineOverallStatus databaseHealth redisHealth =
     (if status databaseHealth \<noteq> db_connected then unhealthy
      else if status redisHealth = redis_error then degraded
      else healthy)"

text \<open>\<open>process.env.npm_package_version || '2.3.0'\<close>: an empty string is falsy too.\<close>

definition package_version :: "'c env \<Rightarrow> string" where
  "package_version env =
     (case npm_package_version env of
        None \<Rightarrow> ''2.3.0''
      | Some v \<Rightarrow> (if v = [] then ''2.3.0'' else v))"

text \<open>
  \<open>getHealthStatus\<close> is one \<open>try\<close> block and one \<open>catch\<close> block after the first clock
  reading; each block is a definition of its own, so that statements can speak of an
  exception leaving the \<open>try\<close> block.
\<close>

definition getHealthStatus_try :: "'c env \<Rightarrow> int \<Rightarrow> ('c, HealthStatus) io" where
  "getHealthStatus_try env startTime' =
     bind_io (checkDatabaseHealth env) (\<lambda>databaseHealth.
     bind_io (checkRedisHealth env) (\<lambda>redisHealth.
     bind_io (getInstanceStatistics env) (\<lambda>instanceStats.
     let memoryUsage' = getMemoryUsage env;
         systemInfo = getSystemInfo env;
         overallStatus = determineOverallStatus databaseHealth redisHealth
     in
     bind_io (Date_now env) (\<lambda>stamp.
     bind_io (Date_now env) (\<lambda>now.
     let healthStatus =
           \<lparr>overall = overallStatus, version = package_version env, timestamp = stamp,
            uptime = (now - startTime env) div 1000, database = databaseHealth,
            redis = redisHealth, instances = instanceStats, memory = memoryUsage',
            system = systemInfo\<rparr>
     in
     bind_io (Date_now env) (\<lambda>finished.
     bind_io (logger_debug ''Health check completed'' overallStatus
                (finished - startTime')) (\<lambda>_.
     return_io healthStatus)))))))"

definition getHealthStatus_catch :: "'c env \<Rightarrow> thrown \<Rightarrow> ('c, HealthStatus) io" where
  "getHealthStatus_catch env err =
     bind_io (sync (message_of err)) (\<lambda>logged.
     bind_io (logger_error ''Health check failed'' logged) (\<lambda>_.
     bind_io (Date_now env) (\<lambda>stamp.
     bind_io (Date_now env) (\<lambda>now.
     bind_io (sync (message_of err)) (\<lambda>database_msg.
     bind_io (sync (message_of err)) (\<lambda>redis_msg.
     return_io
       \<lparr>overall = unhealthy, version = package_version env, timestamp = stamp,
        uptime = (now - startTime env) div 1000,
        database = \<lparr>status = db_error, responseTime = None, error = database_msg\<rparr>,
        redis = \<lparr>status = redis_error, responseTime = None, error = redis_msg\<rparr>,
        instances = \<lparr>total = 0, active = 0, inactive = 0\<rparr>,
        memory = getMemoryUsage env, system = getSystemInfo env\<rparr>))))))"

definition getHealthStatus :: "'c env \<Rightarrow> ('c, HealthStatus) io" where
  "getHealthStatus env =
     bind_io (Date_now env) (\<lambda>startTime'.
       try_catch (getHealthStatus_try env startTime') (getHealthStatus_catch env))"

section \<open>The metrics exposition\<close>

text \<open>\<open>responseTime || 0\<close>: an absent response time and a response time of zero give 0.\<close>

definition or_zero :: "int option \<Rightarrow> int" where
  "or_zero v = (case v of None \<Rightarrow> 0 | Some n \<Rightarrow> n)"

definition metrics_of :: "HealthStatus \<Rightarrow> MetricsData" where
  "metrics_of healthStatus =
     \<lparr>system_uptime_seconds = uptime healthStatus,
      system_memory_usage_bytes = used (memory healthStatus),
      system_memory_total_bytes = mem_total (memory healthStatus),
      app_instances_total = total (instances healthStatus),
      app_instances_active = active (instances healthStatus),
      app_instances_inactive = inactive (instances healthStatus),
      database_connection_status =
        (if status (database healthStatus) = db_connected then 1 else 0),
      database_response_time_ms = or_zero (responseTime (database healthStatus)),
      redis_connection_status =
        (if status (redis healthStatus) = redis_connected then 1 else 0),
      redis_response_time_ms = or_zero (responseTime (redis healthStatus))\<rparr>"

text \<open>The array \<open>lines\<close> that \<open>formatPrometheusMetrics\<close> builds, push by push.\<close>

definition metric_lines :: "MetricsData \<Rightarrow> string list" where
  "metric_lines metrics =
     [''# HELP evolution_api_uptime_seconds Total uptime of the application in seconds'',
      ''# TYPE evolution_api_uptime_seconds counter'',
      ''evolution_api_uptime_seconds '' @ string_of_number (system_uptime_seconds metrics),
      [],
      ''# HELP evolution_api_memory_usage_bytes Current memory usage in bytes'',
      ''# TYPE evolution_api_memory_usage_bytes gauge'',
      ''evolution_api_memory_usage_bytes ''
        @ string_of_number (system_memory_usage_bytes metrics),
      [],
      ''# HELP evolution_api_instances_total Total number of WhatsApp instances'',
      ''# TYPE evolution_api_instances_total gauge'',
      ''evolution_api_instances_total '' @ string_of_number (app_instances_total metrics),
      [],
      ''# HELP evolution_api_instances_active Number of active WhatsApp instances'',
      ''# TYPE evolution_api_instances_active gauge'',
      ''evolution_api_instances_active '' @ string_of_number (app_instances_active metrics),
      [],
      ''# HELP evolution_api_database_up Database connection status (1 = up, 0 = down)'',
      ''# TYPE evolution_api_database_up gauge'',
      ''evolution_api_database_up '' @ string_of_number (database_connection_status metrics),
      [],
      ''# HELP evolution_api_database_response_time_ms Database response time in milliseconds'',
      ''# TYPE evolution_api_database_response_time_ms gauge'',
      ''evolution_api_database_response_time_ms ''
        @ string_of_number (database_response_time_ms metrics),
      [],
      ''# HELP evolution_api_redis_up Redis connection status (1 = up, 0 = down)'',
      ''# TYPE evolution_api_redis_up gauge'',
      ''evolution_api_redis_up '' @ string_of_number (redis_connection_status metrics),
      []]"

definition formatPrometheusMetrics :: "MetricsData \<Rightarrow> string" where
  "formatPrometheusMetrics metrics = join [CHR 10] (metric_lines metrics)"

text \<open>
  \<open>getMetrics\<close> calls \<open>this.formatPrometheusMetrics\<close>, a method looked up on the object
  when it is called (the repository's test replaces it with one that throws), so the
  formatter is a parameter, a synchronous step that returns the text or throws;
  \<open>getMetrics\<close> is the service with the class's own formatter.
\<close>

definition getMetrics_using ::
  "(MetricsData \<Rightarrow> thrown + string) \<Rightarrow> 'c env \<Rightarrow> ('c, string) io" where
  "getMetrics_using formatter env =
     try_catch
       (bind_io (getHealthStatus env) (\<lambda>healthStatus.
          sync (formatter (metrics_of healthStatus))))
       (\<lambda>err.
          bind_io (sync (message_of err)) (\<lambda>logged.
          bind_io (logger_error ''Failed to generate metrics'' logged) (\<lambda>_.
          throw_io err)))"

definition getMetrics :: "'c env \<Rightarrow> ('c, string) io" where
  "getMetrics env = getMetrics_using (\<lambda>metrics. Inr (formatPrometheusMetrics metrics)) env"

section \<open>The instance registry\<close>

text \<open>
  The registry class (\<open>WAMonitoringService\<close>) is known through its tests and its
  callers only; its operations are modelled from the specification and from what the
  repository's tests fix about them.
\<close>

record instance_data =
  instanceId :: string
  instanceName :: string
  number :: "string option"
  hash :: string

record persisted_instance =
  rec_id :: string
  rec_name :: string
  rec_number :: "string option"
  rec_token :: string
  rec_clientName :: string

datatype lookup_key = By_id string | By_number string

text \<open>
  Modelled from the spec: the persistent store collaborator of section 6, whose
  implementation is outside the repository's sources: \<open>findByNames(names,
  namespaceFilter)\<close>, \<open>findFirst(byId | byNumber)\<close> and \<open>insert(record)\<close>, each with any
  outcome, a rejection included.
\<close>

record store =
  store_findByNames :: "string list option \<Rightarrow> string \<Rightarrow> thrown + persisted_instance list"
  store_findFirst :: "lookup_key \<Rightarrow> thrown + persisted_instance option"
  store_insert :: "persisted_instance \<Rightarrow> thrown + persisted_instance"

text \<open>The registry snapshot: the mapping from instance name to handle.\<close>

type_synonym snapshot = "string \<rightharpoonup> instance_data"

definition quoted :: "string \<Rightarrow> string" where
  "quoted s = [CHR 0x22] @ s @ [CHR 0x22]"

text \<open>
  Modelled from the spec: the message of \<open>NotFound\<close>, which is not under the sources:
  it names the offending identifiers, "singular phrasing for one, a comma-joined list for
  several". The wording is the one the repository's tests expect, \<open>Instance "a" not
  found\<close> and \<open>Instances "a, b" not found\<close>.
\<close>

definition not_found_message :: "string list \<Rightarrow> string" where
  "not_found_message names =
     ''Instance'' @ (if length names > 1 then ''s'' else []) @ '' ''
       @ quoted (join '', '' names) @ '' not found''"

text \<open>
  Modelled from the spec: \<open>lookupByNames\<close> (\<open>WAMonitoringService.instanceInfo\<close>), whose
  body is not under the sources. Without names it returns the persisted records of the
  client namespace; with names, every name must have a handle in the snapshot, else it
  fails with \<open>NotFound\<close> naming the missing names, before the store is queried.
\<close>

definition instanceInfo ::
  "store \<Rightarrow> string \<Rightarrow> snapshot \<Rightarrow> string list option \<Rightarrow> thrown + persisted_instance list"
  where
  "instanceInfo st clientName snap instanceNames =
     (case instanceNames of
        None \<Rightarrow> store_findByNames st None clientName
      | Some names \<Rightarrow>
          (let inexistentInstances = filter (\<lambda>name. snap name = None) names in
           if inexistentInstances \<noteq> []
           then Inl (NotFoundException (not_found_message inexistentInstances))
           else store_findByNames st (Some names) clientName))"

definition key_text :: "lookup_key \<Rightarrow> string" where
  "key_text k = (case k of By_id i \<Rightarrow> i | By_number n \<Rightarrow> n)"

text \<open>
  Modelled from the spec: \<open>lookupById\<close> (\<open>WAMonitoringService.instanceInfoById\<close>), whose
  body is not under the sources. Exactly one of id and number is given (the type
  \<open>lookup_key\<close>); the persisted record is resolved by it; no record is \<open>NotFound\<close> with
  the given id or number, a record without a handle in the snapshot is \<open>NotFound\<close> with
  the record's name; otherwise the records of that name are returned.
\<close>

definition instanceInfoById ::
  "store \<Rightarrow> string \<Rightarrow> snapshot \<Rightarrow> lookup_key \<Rightarrow> thrown + persisted_instance list" where
  "instanceInfoById st clientName snap k =
     (case store_findFirst st k of
        Inl e \<Rightarrow> Inl e
      | Inr None \<Rightarrow> Inl (NotFoundException (not_found_message [key_text k]))
      | Inr (Some r) \<Rightarrow>
          (if snap (rec_name r) = None
           then Inl (NotFoundException (not_found_message [rec_name r]))
           else instanceInfo st clientName snap (Some [rec_name r])))"

text \<open>
  The record that \<open>saveInstance\<close> hands to the store, as the test \<open>should save instance to
  database\<close> expects it: id, name, number and token from the instance data, and the client
  name of the deployment.
\<close>

definition record_of :: "string \<Rightarrow> instance_data \<Rightarrow> persisted_instance" where
  "record_of clientName d =
     \<lparr>rec_id = instanceId d, rec_name = instanceName d, rec_number = number d,
      rec_token = hash d, rec_clientName = clientName\<rparr>"


section \<open>Sample collaborators\<close>

text \<open>
  Concrete collaborators in the manner of the mocks of the repository's tests: a cache held
  in memory as an association list, a cache operation that rejects, a clock that advances
  five milliseconds per reading, and the two-instance table of the test \<open>should return
  healthy status when all dependencies are working\<close>. Further down: a configuration
  service that yields \<open>undefined\<close> (what an unprimed mock returns), one that throws an
  \<open>Error\<close>, one that throws \<open>null\<close>, one that throws \<open>undefined\<close>, a database whose
  round trip never settles, and caches one of whose operations never settles.
\<close>

definition memory_set :: "string \<Rightarrow> string \<Rightarrow> int \<Rightarrow> (string \<times> string) list
    \<Rightarrow> unit outcome \<times> (string \<times> string) list" where
  "memory_set k v ttl c = (Resolved (), (k, v) # c)"

definition memory_get :: "string \<Rightarrow> (string \<times> string) list
    \<Rightarrow> string option outcome \<times> (string \<times> string) list" where
  "memory_get k c = (Resolved (map_of c k), c)"

definition memory_delete :: "string \<Rightarrow> (string \<times> string) list
    \<Rightarrow> unit outcome \<times> (string \<times> string) list" where
  "memory_delete k c = (Resolved (), filter (\<lambda>entry. fst entry \<noteq> k) c)"

definition rejecting_set :: "thrown \<Rightarrow> string \<Rightarrow> string \<Rightarrow> int \<Rightarrow> (string \<times> string) list
    \<Rightarrow> unit outcome \<times> (string \<times> string) list" where
  "rejecting_set e k v ttl c = (Rejected e, c)"

definition handle_in_state :: "string \<Rightarrow> instance_handle option" where
  "handle_in_state s = Some \<lparr>connectionStatus = Some \<lparr>state = Some s\<rparr>\<rparr>"

text \<open>
  The runtime's rounding, given where the used memory is half the total (the quotient 0.5
  and its product with 100 are exact in floating point) and left open elsewhere.
\<close>

definition half_is_fifty :: "int \<Rightarrow> int \<Rightarrow> int option" where
  "half_is_fifty usedMemory totalMemory =
     (if usedMemory \<noteq> 0 \<and> totalMemory = 2 * usedMemory then Some 50 else None)"

definition sample_env :: "(string \<times> string) list env" where
  "sample_env =
     \<lparr>clock = (\<lambda>n. 3600000 + 5 * int n), startTime = 0, npm_package_version = None,
      queryRaw = Resolved (),
      config_get_CACHE = Inr (Defined \<lparr>REDIS = Defined \<lparr>ENABLED = True\<rparr>\<rparr>),
      cache_set = memory_set, cache_get = memory_get, cache_delete = memory_delete,
      waInstances = Inr [(''instance1'', handle_in_state ''open''),
                         (''instance2'', handle_in_state ''close'')],
      memoryUsage = \<lparr>heapTotal = 150000000, heapUsed = 100000000, external = 50000000\<rparr>,
      round_percentage = half_is_fifty,
      process_version = ''v20.11.0'', process_platform = ''linux'', process_arch = ''x64''\<rparr>"

definition redis_disabled_env :: "(string \<times> string) list env" where
  "redis_disabled_env =
     sample_env\<lparr>config_get_CACHE := Inr (Defined \<lparr>REDIS = Defined \<lparr>ENABLED = False\<rparr>\<rparr>),
                waInstances := Inr []\<rparr>"

definition world0 :: "(string \<times> string) list world" where
  "world0 = \<lparr>ticks = 0, cache_state = [], log = []\<rparr>"

definition sample_data :: instance_data where
  "sample_data =
     \<lparr>instanceId = ''test-id'', instanceName = ''test-instance'', number = None,
      hash = ''test-token''\<rparr>"

definition sample_record :: persisted_instance where
  "sample_record = record_of ''evolution_test'' sample_data"

text \<open>A store that holds \<open>sample_record\<close> and rejects every write.\<close>

definition sample_store :: store where
  "sample_store =
     \<lparr>store_findByNames = (\<lambda>names clientName. Inr [sample_record]),
      store_findFirst =
        (\<lambda>k. if k = By_id ''test-id'' then Inr (Some sample_record) else Inr None),
      store_insert = (\<lambda>r. Inl (Error ''Database error''))\<rparr>"

definition env_without_config :: "(string \<times> string) list env" where
  "env_without_config = sample_env\<lparr>config_get_CACHE := Inr Undefined\<rparr>"

definition env_config_throws :: "(string \<times> string) list env" where
  "env_config_throws =
     sample_env\<lparr>config_get_CACHE := Inl (Error ''Configuration unavailable'')\<rparr>"

definition env_config_throws_null :: "(string \<times> string) list env" where
  "env_config_throws_null = sample_env\<lparr>config_get_CACHE := Inl Thrown_null\<rparr>"

definition env_config_throws_undefined :: "(string \<times> string) list env" where
  "env_config_throws_undefined = sample_env\<lparr>config_get_CACHE := Inl Thrown_undefined\<rparr>"

definition env_database_hangs :: "(string \<times> string) list env" where
  "env_database_hangs = sample_env\<lparr>queryRaw := Pending\<rparr>"

definition env_cache_set_hangs :: "(string \<times> string) list env" where
  "env_cache_set_hangs = sample_env\<lparr>cache_set := (\<lambda>k v ttl c. (Pending, c))\<rparr>"

definition env_cache_get_hangs :: "(string \<times> string) list env" where
  "env_cache_get_hangs = sample_env\<lparr>cache_get := (\<lambda>k c. (Pending, c))\<rparr>"

definition env_cache_delete_hangs :: "(string \<times> string) list env" where
  "env_cache_delete_hangs = sample_env\<lparr>cache_delete := (\<lambda>k c. (Pending, c))\<rparr>"

section \<open>Observations used in the statements\<close>

text \<open>The overall verdict of an outcome of \<open>getHealthStatus\<close>, if it resolved.\<close>

definition overall_of :: "HealthStatus outcome \<times> 'c world \<Rightarrow> health option" where
  "overall_of run =
     (case fst run of Resolved hs \<Rightarrow> Some (overall hs) | Rejected e \<Rightarrow> None | Pending \<Rightarrow> None)"

text \<open>The \<open># TYPE\<close> lines among the lines of an exposition, one per series.\<close>

definition type_lines :: "string list \<Rightarrow> string list" where
  "type_lines ls = filter (\<lambda>l. take 7 l = ''# TYPE '') ls"

text \<open>The names of a lookup that have no handle in the snapshot, in the order given.\<close>

definition missing_names :: "snapshot \<Rightarrow> string list \<Rightarrow> string list" where
  "missing_names snap names = filter (\<lambda>name. snap name = None) names"

text \<open>
  The lines of a text, as \<open>text.split('\n')\<close> gives them: the pieces between the
  newlines, one more than there are newlines.
\<close>

fun split_lines :: "string \<Rightarrow> string list" where
  "split_lines [] = [[]]"
| "split_lines (c # cs) =
     (if c = CHR 10 then [] # split_lines cs
      else (case split_lines cs of [] \<Rightarrow> [[c]] | l # ls \<Rightarrow> (c # l) # ls))"

text \<open>The lines of an exposition that give a value of the gauge \<open>evolution_api_redis_up\<close>.\<close>

definition redis_up_lines :: "string \<Rightarrow> string list" where
  "redis_up_lines exposition =
     filter (\<lambda>l. take 23 l = ''evolution_api_redis_up '') (split_lines exposition)"

text \<open>A value caught whose \<open>message\<close> cannot be read: \<open>null\<close> or \<open>undefined\<close>.\<close>

definition nullish :: "thrown \<Rightarrow> bool" where
  "nullish err = (err = Thrown_null \<or> err = Thrown_undefined)"

section \<open>How the health service runs\<close>

lemma message_of_cases:
  "(nullish err \<and> (\<exists>text. message_of err = Inl (Error text)))
   \<or> (\<not> nullish err \<and> (\<exists>m. message_of err = Inr m))"
  by (cases err) (simp_all add: message_of_def nullish_def)

lemma message_of_readable: "\<not> nullish err \<Longrightarrow> \<exists>m. message_of err = Inr m"
  using message_of_cases [of err] by blast

lemma message_of_TypeError: "message_of err = Inl te \<Longrightarrow> nullish err \<and> \<not> nullish te"
  using message_of_cases [of err] by (auto simp add: nullish_def)

lemma checkDatabaseHealth_eq:
  "checkDatabaseHealth env w =
     (case queryRaw env of
        Resolved u \<Rightarrow>
          (Resolved \<lparr>status = db_connected,
                responseTime = Some (clock env (Suc (ticks w)) - clock env (ticks w)),
                error = None\<rparr>,
           w\<lparr>ticks := Suc (Suc (ticks w))\<rparr>)
      | Pending \<Rightarrow> (Pending, w\<lparr>ticks := Suc (ticks w)\<rparr>)
      | Rejected e \<Rightarrow>
          (case message_of e of
             Inl te \<Rightarrow> (Rejected te, w\<lparr>ticks := Suc (ticks w)\<rparr>)
           | Inr m \<Rightarrow>
               (Resolved \<lparr>status = db_error,
                     responseTime = Some (clock env (Suc (ticks w)) - clock env (ticks w)),
                     error = m\<rparr>,
                w\<lparr>ticks := Suc (Suc (ticks w)),
                  log := log w @ [Log_error ''Database health check failed'' m]\<rparr>)))"
  by (simp add: checkDatabaseHealth_def bind_io_def try_catch_def Date_now_def await_def
      sync_def return_io_def logger_error_def split: outcome.splits sum.splits)

lemma count_instances_eq:
  "count_instances table names (a, i) =
     (a + int (length (filter (\<lambda>n. is_open (lookup_instance table n)) names)),
      i + int (length (filter (\<lambda>n. \<not> is_open (lookup_instance table n)) names)))"
  by (induction names arbitrary: a i) simp_all

lemma getInstanceStatistics_eq:
  "getInstanceStatistics env w =
     (case waInstances env of
        Inr table \<Rightarrow>
          (Resolved \<lparr>total = int (length table),
                active = int (length (filter (\<lambda>n. is_open (lookup_instance table n)) (map fst table))),
                inactive = int (length (filter (\<lambda>n. \<not> is_open (lookup_instance table n)) (map fst table)))\<rparr>, w)
      | Inl e \<Rightarrow>
          (case message_of e of
             Inl te \<Rightarrow> (Rejected te, w)
           | Inr m \<Rightarrow>
               (Resolved \<lparr>total = 0, active = 0, inactive = 0\<rparr>,
                w\<lparr>log := log w @ [Log_error ''Failed to get instance statistics'' m]\<rparr>)))"
  by (simp add: getInstanceStatistics_def bind_io_def try_catch_def sync_def
      return_io_def logger_error_def count_instances_eq Let_def split: sum.splits)

lemma getHealthStatus_catch_eq:
  "getHealthStatus_catch env err w =
     (case message_of err of
        Inl te \<Rightarrow> (Rejected te, w)
      | Inr m \<Rightarrow>
         (Resolved \<lparr>overall = unhealthy, version = package_version env,
           timestamp = clock env (ticks w),
           uptime = (clock env (Suc (ticks w)) - startTime env) div 1000,
           database = \<lparr>status = db_error, responseTime = None, error = m\<rparr>,
           redis = \<lparr>status = redis_error, responseTime = None, error = m\<rparr>,
           instances = \<lparr>total = 0, active = 0, inactive = 0\<rparr>,
           memory = getMemoryUsage env, system = getSystemInfo env\<rparr>,
          w\<lparr>ticks := Suc (Suc (ticks w)),
            log := log w @ [Log_error ''Health check failed'' m]\<rparr>))"
  by (simp add: getHealthStatus_catch_def bind_io_def Date_now_def return_io_def
      logger_error_def sync_def split: sum.splits)

lemma getHealthStatus_try_eq:
  "getHealthStatus_try env s w =
     (case checkDatabaseHealth env w of
        (Pending, w2) \<Rightarrow> (Pending, w2)
      | (Rejected e, w2) \<Rightarrow> (Rejected e, w2)
      | (Resolved db, w2) \<Rightarrow>
          (case checkRedisHealth env w2 of
             (Pending, w3) \<Rightarrow> (Pending, w3)
           | (Rejected e, w3) \<Rightarrow> (Rejected e, w3)
           | (Resolved rh, w3) \<Rightarrow>
               (case getInstanceStatistics env w3 of
                  (Pending, w4) \<Rightarrow> (Pending, w4)
                | (Rejected e, w4) \<Rightarrow> (Rejected e, w4)
                | (Resolved st, w4) \<Rightarrow>
                    (Resolved \<lparr>overall = determineOverallStatus db rh,
                        version = package_version env,
                        timestamp = clock env (ticks w4),
                        uptime = (clock env (Suc (ticks w4)) - startTime env) div 1000,
                        database = db, redis = rh, instances = st,
                        memory = getMemoryUsage env, system = getSystemInfo env\<rparr>,
                     w4\<lparr>ticks := Suc (Suc (Suc (ticks w4))),
                        log := log w4 @ [Log_debug ''Health check completed''
                            (determineOverallStatus db rh)
                            (clock env (Suc (Suc (ticks w4))) - s)]\<rparr>))))"
  by (simp add: getHealthStatus_try_def bind_io_def Date_now_def return_io_def
      logger_debug_def Let_def split: prod.splits outcome.splits)

lemma getHealthStatus_eq:
  "getHealthStatus env w =
     (case getHealthStatus_try env (clock env (ticks w)) (w\<lparr>ticks := Suc (ticks w)\<rparr>) of
        (Resolved hs, w') \<Rightarrow> (Resolved hs, w')
      | (Rejected e, w') \<Rightarrow> getHealthStatus_catch env e w'
      | (Pending, w') \<Rightarrow> (Pending, w'))"
  by (simp add: getHealthStatus_def bind_io_def try_catch_def Date_now_def)

text \<open>What can leave the cache probe.\<close>

lemma checkRedisHealth_rejected:
  "checkRedisHealth env w = (Rejected e, w') \<Longrightarrow> nullish e \<Longrightarrow> config_get_CACHE env = Inl e"
  by (auto simp add: checkRedisHealth_def bind_io_def try_catch_def Date_now_def
      return_io_def throw_io_def logger_error_def get_redisConfig_def read_ENABLED_def
      cache_call_def sync_def Let_def nullish_def
      split: sum.splits looked_up.splits prod.splits outcome.splits if_splits
      dest: message_of_TypeError)

lemma checkRedisHealth_settles:
  assumes "\<And>k v t c. fst (cache_set env k v t c) \<noteq> Pending"
    and "\<And>k c. fst (cache_get env k c) \<noteq> Pending"
    and "\<And>k c. fst (cache_delete env k c) \<noteq> Pending"
  shows "fst (checkRedisHealth env w) \<noteq> Pending"
proof -
  have set: "\<And>k v t c c'. cache_set env k v t c \<noteq> (Pending, c')"
    using assms(1) by (metis fst_conv)
  have get: "\<And>k c c'. cache_get env k c \<noteq> (Pending, c')"
    using assms(2) by (metis fst_conv)
  have delete: "\<And>k c c'. cache_delete env k c \<noteq> (Pending, c')"
    using assms(3) by (metis fst_conv)
  show ?thesis
    by (auto simp add: checkRedisHealth_def bind_io_def try_catch_def Date_now_def
      return_io_def throw_io_def logger_error_def get_redisConfig_def read_ENABLED_def
      cache_call_def sync_def Let_def set get delete
      split: sum.splits looked_up.splits prod.splits outcome.splits)
qed

lemma checkDatabaseHealth_rejected:
  "checkDatabaseHealth env w = (Rejected e, w') \<Longrightarrow> \<not> nullish e"
  by (auto simp add: checkDatabaseHealth_eq split: outcome.splits sum.splits
      dest: message_of_TypeError)

lemma checkDatabaseHealth_settles:
  "queryRaw env \<noteq> Pending \<Longrightarrow> fst (checkDatabaseHealth env w) \<noteq> Pending"
  by (auto simp add: checkDatabaseHealth_eq split: outcome.splits sum.splits)

lemma getInstanceStatistics_rejected:
  "getInstanceStatistics env w = (Rejected e, w') \<Longrightarrow> \<not> nullish e"
  by (auto simp add: getInstanceStatistics_eq split: sum.splits dest: message_of_TypeError)

lemma getInstanceStatistics_settles: "fst (getInstanceStatistics env w) \<noteq> Pending"
  by (auto simp add: getInstanceStatistics_eq split: sum.splits)

lemma getInstanceStatistics_world:
  "getInstanceStatistics env w = (r, w') \<Longrightarrow> cache_state w' = cache_state w \<and> ticks w' = ticks w"
  by (auto simp add: getInstanceStatistics_eq split: sum.splits)

lemma checkDatabaseHealth_world:
  "checkDatabaseHealth env w = (r, w') \<Longrightarrow> cache_state w' = cache_state w"
  by (auto simp add: checkDatabaseHealth_eq split: outcome.splits sum.splits)

lemma getHealthStatus_catch_world:
  "getHealthStatus_catch env e w = (r, w') \<Longrightarrow> cache_state w' = cache_state w"
  by (auto simp add: getHealthStatus_catch_eq split: sum.splits)

text \<open>
  Only what the configuration lookup throws can leave the \<open>try\<close> block as \<open>null\<close> or
  \<open>undefined\<close>: the handlers of the probes and of the statistics turn every other one
  into a result or into a TypeError.
\<close>

lemma getHealthStatus_try_rejected:
  assumes "getHealthStatus_try env s w = (Rejected e, w')" and "nullish e"
  shows "config_get_CACHE env = Inl e"
proof (cases "checkDatabaseHealth env w")
  case (Pair d w2)
  show ?thesis
  proof (cases d)
    case (Resolved db)
    show ?thesis
    proof (cases "checkRedisHealth env w2")
      case redis: (Pair r w3)
      show ?thesis
      proof (cases r)
        case rh: (Resolved rh)
        with assms Pair Resolved redis show ?thesis
          by (auto simp add: getHealthStatus_try_eq split: prod.splits outcome.splits
              dest: getInstanceStatistics_rejected)
      next
        case (Rejected e')
        with assms Pair Resolved redis have "checkRedisHealth env w2 = (Rejected e, w')"
          by (simp add: getHealthStatus_try_eq)
        then show ?thesis using assms(2) by (rule checkRedisHealth_rejected)
      next
        case Pending
        with assms Pair Resolved redis show ?thesis
          by (simp add: getHealthStatus_try_eq)
      qed
    qed
  next
    case (Rejected e')
    with assms Pair show ?thesis
      by (auto simp add: getHealthStatus_try_eq dest: checkDatabaseHealth_rejected)
  next
    case Pending
    with assms Pair show ?thesis
      by (simp add: getHealthStatus_try_eq)
  qed
qed

lemma getHealthStatus_try_settles:
  assumes "queryRaw env \<noteq> Pending"
    and "\<And>k v t c. fst (cache_set env k v t c) \<noteq> Pending"
    and "\<And>k c. fst (cache_get env k c) \<noteq> Pending"
    and "\<And>k c. fst (cache_delete env k c) \<noteq> Pending"
  shows "fst (getHealthStatus_try env s w) \<noteq> Pending"
proof -
  have db: "\<And>w w2. checkDatabaseHealth env w \<noteq> (Pending, w2)"
    using checkDatabaseHealth_settles [OF assms(1)] by (metis fst_conv)
  have redis: "\<And>w w2. checkRedisHealth env w \<noteq> (Pending, w2)"
    using checkRedisHealth_settles [of env, OF assms(2-4)] by (metis fst_conv)
  have stats: "\<And>w w2. getInstanceStatistics env w \<noteq> (Pending, w2)"
    using getInstanceStatistics_settles [of env] by (metis fst_conv)
  show ?thesis
    by (auto simp add: getHealthStatus_try_eq db redis stats
        split: prod.splits outcome.splits)
qed

lemma getHealthStatus_total:
  assumes "queryRaw env \<noteq> Pending"
    and "\<And>k v t c. fst (cache_set env k v t c) \<noteq> Pending"
    and "\<And>k c. fst (cache_get env k c) \<noteq> Pending"
    and "\<And>k c. fst (cache_delete env k c) \<noteq> Pending"
    and "config_get_CACHE env \<noteq> Inl Thrown_null"
    and "config_get_CACHE env \<noteq> Inl Thrown_undefined"
  shows "\<exists>hs w'. getHealthStatus env w = (Resolved hs, w')"
proof (cases "getHealthStatus_try env (clock env (ticks w)) (w\<lparr>ticks := Suc (ticks w)\<rparr>)")
  case (Pair r w1)
  show ?thesis
  proof (cases r)
    case (Resolved hs)
    with Pair show ?thesis by (simp add: getHealthStatus_eq)
  next
    case (Rejected e)
    have "\<not> nullish e"
    proof
      assume "nullish e"
      with Pair Rejected have "config_get_CACHE env = Inl e"
        by (auto dest: getHealthStatus_try_rejected)
      with \<open>nullish e\<close> assms(5,6) show False by (auto simp add: nullish_def)
    qed
    then obtain m where "message_of e = Inr m"
      using message_of_readable by blast
    with Pair Rejected show ?thesis
      by (simp add: getHealthStatus_eq getHealthStatus_catch_eq)
  next
    case Pending
    with Pair getHealthStatus_try_settles [OF assms(1-4), of "clock env (ticks w)" "w\<lparr>ticks := Suc (ticks w)\<rparr>"]
    show ?thesis by simp
  qed
qed

text \<open>How a status that was returned came about.\<close>

lemma getHealthStatus_resolved:
  assumes "getHealthStatus env w = (Resolved hs, w')"
  shows "(\<exists>err w3 m.
            getHealthStatus_try env (clock env (ticks w)) (w\<lparr>ticks := Suc (ticks w)\<rparr>)
              = (Rejected err, w3)
          \<and> message_of err = Inr m
          \<and> getHealthStatus_catch env err w3 = (Resolved hs, w')
          \<and> cache_state w' = cache_state w3)
      \<or> (\<exists>db w2 rh w3 st w4.
            getHealthStatus_try env (clock env (ticks w)) (w\<lparr>ticks := Suc (ticks w)\<rparr>)
              = (Resolved hs, w')
          \<and> checkDatabaseHealth env (w\<lparr>ticks := Suc (ticks w)\<rparr>) = (Resolved db, w2)
          \<and> cache_state w2 = cache_state w
          \<and> checkRedisHealth env w2 = (Resolved rh, w3)
          \<and> getInstanceStatistics env w3 = (Resolved st, w4)
          \<and> overall hs = determineOverallStatus db rh
          \<and> database hs = db \<and> redis hs = rh \<and> instances hs = st
          \<and> cache_state w' = cache_state w3)"
proof (cases "getHealthStatus_try env (clock env (ticks w)) (w\<lparr>ticks := Suc (ticks w)\<rparr>)")
  case (Pair r w1)
  show ?thesis
  proof (cases r)
    case (Resolved hs')
    with Pair assms have same: "hs' = hs" "w1 = w'" by (simp_all add: getHealthStatus_eq)
    from Pair Resolved same show ?thesis
      apply (intro disjI2)
      apply (auto simp add: getHealthStatus_try_eq split: prod.splits outcome.splits
          dest: getInstanceStatistics_world checkDatabaseHealth_world)
      done
  next
    case (Rejected e)
    with Pair assms have c: "getHealthStatus_catch env e w1 = (Resolved hs, w')"
      by (simp add: getHealthStatus_eq)
    then obtain m where "message_of e = Inr m"
      by (auto simp add: getHealthStatus_catch_eq split: sum.splits)
    with Pair Rejected c getHealthStatus_catch_world [OF c] show ?thesis
      by blast
  next
    case Pending
    with Pair assms show ?thesis by (simp add: getHealthStatus_eq)
  qed
qed

lemma Date_now_ignores_registry:
  "Date_now (env\<lparr>waInstances := r\<rparr>) = Date_now env"
  by (simp add: fun_eq_iff Date_now_def)

lemma probes_ignore_registry:
  "checkDatabaseHealth (env\<lparr>waInstances := r\<rparr>) = checkDatabaseHealth env"
  "checkRedisHealth (env\<lparr>waInstances := r\<rparr>) = checkRedisHealth env"
  by (simp_all add: checkDatabaseHealth_def checkRedisHealth_def Date_now_ignores_registry
      get_redisConfig_def Let_def cong: if_cong)

lemma getHealthStatus_overall:
  "getHealthStatus env w = (Resolved hs, w')
     \<Longrightarrow> overall hs = determineOverallStatus (database hs) (redis hs)"
  by (drule getHealthStatus_resolved)
    (auto simp add: getHealthStatus_catch_eq determineOverallStatus_def)

text \<open>
  Where the statistics resolve, the verdict is a matter of the two probes and of whether
  the message of what they throw can be read.
\<close>

lemma overall_of_getHealthStatus:
  assumes "\<And>w. \<exists>st w4. getInstanceStatistics env w = (Resolved st, w4)"
  shows "overall_of (getHealthStatus env w) =
     (case checkDatabaseHealth env (w\<lparr>ticks := Suc (ticks w)\<rparr>) of
        (Pending, w2) \<Rightarrow> None
      | (Rejected e, w2) \<Rightarrow> (if nullish e then None else Some unhealthy)
      | (Resolved db, w2) \<Rightarrow>
          (case checkRedisHealth env w2 of
             (Pending, w3) \<Rightarrow> None
           | (Rejected e, w3) \<Rightarrow> (if nullish e then None else Some unhealthy)
           | (Resolved rh, w3) \<Rightarrow> Some (determineOverallStatus db rh)))"
proof -
  have caught: "\<And>e w1. overall_of (getHealthStatus_catch env e w1)
      = (if nullish e then None else Some unhealthy)"
    subgoal for e w1
      using message_of_cases [of e]
      by (auto simp add: overall_of_def getHealthStatus_catch_eq)
    done
  show ?thesis
  proof (cases "checkDatabaseHealth env (w\<lparr>ticks := Suc (ticks w)\<rparr>)")
    case (Pair d w2)
    show ?thesis
    proof (cases d)
      case (Resolved db)
      show ?thesis
      proof (cases "checkRedisHealth env w2")
        case redis: (Pair r w3)
        from assms [of w3] obtain st w4
          where stats: "getInstanceStatistics env w3 = (Resolved st, w4)" by blast
        show ?thesis
        proof (cases r)
          case rejected: (Rejected e)
          with Pair Resolved redis show ?thesis
            by (simp add: getHealthStatus_eq getHealthStatus_try_eq caught)
        qed (use Pair Resolved redis stats in
            \<open>simp_all add: getHealthStatus_eq getHealthStatus_try_eq overall_of_def\<close>)
      qed
    next
      case (Rejected e)
      with Pair show ?thesis
        by (simp add: getHealthStatus_eq getHealthStatus_try_eq caught)
    next
      case Pending
      with Pair show ?thesis
        by (simp add: getHealthStatus_eq getHealthStatus_try_eq overall_of_def)
    qed
  qed
qed

lemma readable_registry_resolves:
  "\<exists>st w4. getInstanceStatistics (env\<lparr>waInstances := Inr table\<rparr>) w = (Resolved st, w4)"
  by (simp add: getInstanceStatistics_eq)

lemma catchable_registry_resolves:
  "\<not> nullish e
     \<Longrightarrow> \<exists>st w4. getInstanceStatistics (env\<lparr>waInstances := Inl e\<rparr>) w = (Resolved st, w4)"
  using message_of_cases [of e] by (auto simp add: getInstanceStatistics_eq)

lemma sample_run:
  "getHealthStatus sample_env world0
     = (Resolved \<lparr>overall = healthy, version = ''2.3.0'', timestamp = 3600030, uptime = 3600,
             database = \<lparr>status = db_connected, responseTime = Some 5, error = None\<rparr>,
             redis = \<lparr>status = redis_connected, responseTime = Some 10, error = None\<rparr>,
             instances = \<lparr>total = 2, active = 1, inactive = 1\<rparr>,
             memory = \<lparr>used = 100000000, mem_total = 200000000, percentage = Some 50\<rparr>,
             system = \<lparr>nodeVersion = ''v20.11.0'', platform = ''linux'', arch = ''x64''\<rparr>\<rparr>,
        \<lparr>ticks = 9, cache_state = [],
         log = [Log_debug ''Health check completed'' healthy 40]\<rparr>)"
  by (simp add: getHealthStatus_eq getHealthStatus_try_eq bind_io_def try_catch_def
      checkDatabaseHealth_eq checkRedisHealth_def get_redisConfig_def read_ENABLED_def
      return_io_def Date_now_def getInstanceStatistics_eq Let_def
      cache_call_def memory_set_def memory_get_def memory_delete_def
      determineOverallStatus_def package_version_def getMemoryUsage_def getSystemInfo_def
      is_open_def lookup_instance_def state_of_def handle_in_state_def half_is_fifty_def
      sample_env_def world0_def)

lemma disabled_run:
  "getHealthStatus redis_disabled_env world0
     = (Resolved \<lparr>overall = healthy, version = ''2.3.0'', timestamp = 3600015, uptime = 3600,
             database = \<lparr>status = db_connected, responseTime = Some 5, error = None\<rparr>,
             redis = \<lparr>status = redis_disabled, responseTime = None, error = None\<rparr>,
             instances = \<lparr>total = 0, active = 0, inactive = 0\<rparr>,
             memory = \<lparr>used = 100000000, mem_total = 200000000, percentage = Some 50\<rparr>,
             system = \<lparr>nodeVersion = ''v20.11.0'', platform = ''linux'', arch = ''x64''\<rparr>\<rparr>,
        \<lparr>ticks = 6, cache_state = [],
         log = [Log_debug ''Health check completed'' healthy 25]\<rparr>)"
  by (simp add: getHealthStatus_eq getHealthStatus_try_eq bind_io_def
      checkDatabaseHealth_eq checkRedisHealth_def get_redisConfig_def read_ENABLED_def
      return_io_def getInstanceStatistics_eq
      determineOverallStatus_def package_version_def getMemoryUsage_def getSystemInfo_def
      half_is_fifty_def redis_disabled_env_def sample_env_def world0_def)

lemma without_config_run:
  "getHealthStatus env_without_config world0
     = (Resolved \<lparr>overall = unhealthy, version = ''2.3.0'', timestamp = 3600015, uptime = 3600,
             database = \<lparr>status = db_error, responseTime = None,
               error = Some ''Cannot read properties of undefined (reading 'REDIS')''\<rparr>,
             redis = \<lparr>status = redis_error, responseTime = None,
               error = Some ''Cannot read properties of undefined (reading 'REDIS')''\<rparr>,
             instances = \<lparr>total = 0, active = 0, inactive = 0\<rparr>,
             memory = \<lparr>used = 100000000, mem_total = 200000000, percentage = Some 50\<rparr>,
             system = \<lparr>nodeVersion = ''v20.11.0'', platform = ''linux'', arch = ''x64''\<rparr>\<rparr>,
        \<lparr>ticks = 5, cache_state = [],
         log = [Log_error ''Health check failed''
                  (Some ''Cannot read properties of undefined (reading 'REDIS')'')]\<rparr>)"
  by (simp add: getHealthStatus_eq getHealthStatus_try_eq bind_io_def
      checkDatabaseHealth_eq checkRedisHealth_def get_redisConfig_def throw_io_def
      getHealthStatus_catch_eq message_of_def
      package_version_def getMemoryUsage_def getSystemInfo_def
      half_is_fifty_def env_without_config_def sample_env_def world0_def)

lemma config_throws_run:
  "getHealthStatus env_config_throws world0
     = (Resolved \<lparr>overall = unhealthy, version = ''2.3.0'', timestamp = 3600015, uptime = 3600,
             database = \<lparr>status = db_error, responseTime = None,
               error = Some ''Configuration unavailable''\<rparr>,
             redis = \<lparr>status = redis_error, responseTime = None,
               error = Some ''Configuration unavailable''\<rparr>,
             instances = \<lparr>total = 0, active = 0, inactive = 0\<rparr>,
             memory = \<lparr>used = 100000000, mem_total = 200000000, percentage = Some 50\<rparr>,
             system = \<lparr>nodeVersion = ''v20.11.0'', platform = ''linux'', arch = ''x64''\<rparr>\<rparr>,
        \<lparr>ticks = 5, cache_state = [],
         log = [Log_error ''Health check failed'' (Some ''Configuration unavailable'')]\<rparr>)"
  by (simp add: getHealthStatus_eq getHealthStatus_try_eq bind_io_def
      checkDatabaseHealth_eq checkRedisHealth_def get_redisConfig_def throw_io_def
      getHealthStatus_catch_eq message_of_def
      package_version_def getMemoryUsage_def getSystemInfo_def
      half_is_fifty_def env_config_throws_def sample_env_def world0_def)

lemma config_throws_null_run:
  "getHealthStatus env_config_throws_null world0
     = (Rejected (Error ''Cannot read properties of null (reading 'message')''),
        \<lparr>ticks = 3, cache_state = [], log = []\<rparr>)"
  by (simp add: getHealthStatus_eq getHealthStatus_try_eq bind_io_def
      checkDatabaseHealth_eq checkRedisHealth_def get_redisConfig_def throw_io_def
      getHealthStatus_catch_eq message_of_def
      env_config_throws_null_def sample_env_def world0_def)

lemma config_throws_undefined_run:
  "getHealthStatus env_config_throws_undefined world0
     = (Rejected (Error ''Cannot read properties of undefined (reading 'message')''),
        \<lparr>ticks = 3, cache_state = [], log = []\<rparr>)"
  by (simp add: getHealthStatus_eq getHealthStatus_try_eq bind_io_def
      checkDatabaseHealth_eq checkRedisHealth_def get_redisConfig_def throw_io_def
      getHealthStatus_catch_eq message_of_def
      env_config_throws_undefined_def sample_env_def world0_def)

lemma cache_hangs_run:
  "fst (getHealthStatus env_cache_set_hangs world0) = Pending"
  "fst (getHealthStatus env_cache_get_hangs world0) = Pending"
  "fst (getHealthStatus env_cache_delete_hangs world0) = Pending"
  by (simp_all add: getHealthStatus_eq getHealthStatus_try_eq bind_io_def try_catch_def
      checkDatabaseHealth_eq checkRedisHealth_def get_redisConfig_def read_ENABLED_def
      return_io_def Date_now_def Let_def cache_call_def memory_set_def memory_get_def
      memory_delete_def env_cache_set_hangs_def env_cache_get_hangs_def
      env_cache_delete_hangs_def sample_env_def world0_def)

lemma database_hangs_run:
  "getHealthStatus env_database_hangs world0
     = (Pending, \<lparr>ticks = 2, cache_state = [], log = []\<rparr>)"
  by (simp add: getHealthStatus_eq getHealthStatus_try_eq checkDatabaseHealth_eq
      env_database_hangs_def sample_env_def world0_def)

section \<open>The overall verdict\<close>

text \<open>
  Claim C1. The verdict of \<open>determineOverallStatus\<close> is \<open>unhealthy\<close> exactly when the
  database status is not \<open>connected\<close>; it is \<open>degraded\<close> exactly when the database is
  connected and the cache status is \<open>error\<close>; it is \<open>healthy\<close> in every other case, a
  disabled or disconnected cache included. It depends on the two statuses only: the other
  fields of the probe results do not change it, every status that \<open>getHealthStatus\<close>
  returns carries the verdict of its own two probe fields, and the verdict of a health
  check is the same for every table of the registry, and for a registry whose reading
  throws a value with a readable message, as for the empty table.
\<close>

theorem determineOverallStatus_precedence:
  "((determineOverallStatus d r = unhealthy) = (status d \<noteq> db_connected))
   \<and> ((determineOverallStatus d r = degraded)
        = (status d = db_connected \<and> status r = redis_error))
   \<and> ((determineOverallStatus d r = healthy)
        = (status d = db_connected \<and> status r \<noteq> redis_error))
   \<and> determineOverallStatus (d\<lparr>responseTime := t, error := m\<rparr>)
        (r\<lparr>responseTime := t', error := m'\<rparr>) = determineOverallStatus d r
   \<and> (\<forall>hs w'. getHealthStatus env w = (Resolved hs, w')
        \<longrightarrow> overall hs = determineOverallStatus (database hs) (redis hs))
   \<and> overall_of (getHealthStatus (env\<lparr>waInstances := Inr table\<rparr>) w)
        = overall_of (getHealthStatus (env\<lparr>waInstances := Inr []\<rparr>) w)
   \<and> (\<not> nullish e
        \<longrightarrow> overall_of (getHealthStatus (env\<lparr>waInstances := Inl e\<rparr>) w)
            = overall_of (getHealthStatus (env\<lparr>waInstances := Inr []\<rparr>) w))"
proof -
  have verdicts: "((determineOverallStatus d r = unhealthy) = (status d \<noteq> db_connected))
   \<and> ((determineOverallStatus d r = degraded)
        = (status d = db_connected \<and> status r = redis_error))
   \<and> ((determineOverallStatus d r = healthy)
        = (status d = db_connected \<and> status r \<noteq> redis_error))"
    by (simp add: determineOverallStatus_def)
  have frame: "determineOverallStatus (d\<lparr>responseTime := t, error := m\<rparr>)
        (r\<lparr>responseTime := t', error := m'\<rparr>) = determineOverallStatus d r"
    by (simp add: determineOverallStatus_def)
  have own: "\<forall>hs w'. getHealthStatus env w = (Resolved hs, w')
        \<longrightarrow> overall hs = determineOverallStatus (database hs) (redis hs)"
    by (blast dest: getHealthStatus_overall)
  have tables: "overall_of (getHealthStatus (env\<lparr>waInstances := Inr table\<rparr>) w)
        = overall_of (getHealthStatus (env\<lparr>waInstances := Inr []\<rparr>) w)"
    by (simp only: overall_of_getHealthStatus [OF readable_registry_resolves]
        probes_ignore_registry)
  have throwing: "\<not> nullish e
        \<longrightarrow> overall_of (getHealthStatus (env\<lparr>waInstances := Inl e\<rparr>) w)
            = overall_of (getHealthStatus (env\<lparr>waInstances := Inr []\<rparr>) w)"
  proof
    assume readable: "\<not> nullish e"
    show "overall_of (getHealthStatus (env\<lparr>waInstances := Inl e\<rparr>) w)
            = overall_of (getHealthStatus (env\<lparr>waInstances := Inr []\<rparr>) w)"
      by (simp only: overall_of_getHealthStatus [OF readable_registry_resolves]
          overall_of_getHealthStatus [OF catchable_registry_resolves [OF readable]]
          probes_ignore_registry)
  qed
  from verdicts frame own tables throwing show ?thesis
    by blast
qed

theorem determineOverallStatus_precedence_witness:
  "determineOverallStatus \<lparr>status = db_connected, responseTime = Some 10, error = None\<rparr>
      \<lparr>status = redis_disabled, responseTime = None, error = None\<rparr> = healthy
   \<and> determineOverallStatus \<lparr>status = db_connected, responseTime = Some 10, error = None\<rparr>
      \<lparr>status = redis_error, responseTime = Some 3, error = Some ''Redis connection failed''\<rparr>
       = degraded
   \<and> determineOverallStatus \<lparr>status = db_error, responseTime = Some 10, error = Some ''Connection failed''\<rparr>
      \<lparr>status = redis_connected, responseTime = Some 3, error = None\<rparr> = unhealthy
   \<and> overall (resolved (fst (getHealthStatus sample_env world0)))
       = determineOverallStatus (database (resolved (fst (getHealthStatus sample_env world0))))
           (redis (resolved (fst (getHealthStatus sample_env world0))))
   \<and> overall_of (getHealthStatus
          (sample_env\<lparr>waInstances := Inr [(''instance1'', handle_in_state ''open'')]\<rparr>) world0)
       = overall_of (getHealthStatus (sample_env\<lparr>waInstances := Inr []\<rparr>) world0)
   \<and> \<not> nullish (Error ''Registry unavailable'')
   \<and> overall_of (getHealthStatus
          (sample_env\<lparr>waInstances := Inl (Error ''Registry unavailable'')\<rparr>) world0)
       = overall_of (getHealthStatus (sample_env\<lparr>waInstances := Inr []\<rparr>) world0)"
  using determineOverallStatus_precedence
      [where d = "\<lparr>status = db_connected, responseTime = Some 10, error = None\<rparr>"
        and r = "\<lparr>status = redis_disabled, responseTime = None, error = None\<rparr>"
        and t = None and m = None and t' = None and m' = None
        and env = sample_env and w = world0
        and table = "[(''instance1'', handle_in_state ''open'')]"
        and e = "Error ''Registry unavailable''"]
    determineOverallStatus_precedence
      [where d = "\<lparr>status = db_connected, responseTime = Some 10, error = None\<rparr>"
        and r = "\<lparr>status = redis_error, responseTime = Some 3, error = Some ''Redis connection failed''\<rparr>"
        and t = None and m = None and t' = None and m' = None
        and env = sample_env and w = world0 and table = "[]"
        and e = "Error ''Registry unavailable''"]
    determineOverallStatus_precedence
      [where d = "\<lparr>status = db_error, responseTime = Some 10, error = Some ''Connection failed''\<rparr>"
        and r = "\<lparr>status = redis_connected, responseTime = Some 3, error = None\<rparr>"
        and t = None and m = None and t' = None and m' = None
        and env = sample_env and w = world0 and table = "[]"
        and e = "Error ''Registry unavailable''"]
  by (simp add: sample_run nullish_def)

section \<open>Totality of the health check\<close>

text \<open>
  Claim C2, as amended. If the database query and the cache operations settle, and the
  configuration lookup does not throw \<open>null\<close> or \<open>undefined\<close>, every call of
  \<open>getHealthStatus\<close> resolves with a \<open>HealthStatus\<close>, whatever else the database,
  the cache, the configuration and the registry do: they may reject or throw any value,
  \<open>null\<close> included. When an exception leaves the \<open>try\<close> block, its message can be read
  and the value returned is fully populated: the verdict is \<open>unhealthy\<close>, the database
  and the cache fields both report \<open>error\<close> with the message of the exception that was
  caught, the instance counts are zero, and version, timestamp, uptime, memory and system
  are filled in.
\<close>

theorem getHealthStatus_never_throws:
  assumes "queryRaw env \<noteq> Pending"
    and "\<forall>k v t c. fst (cache_set env k v t c) \<noteq> Pending"
    and "\<forall>k c. fst (cache_get env k c) \<noteq> Pending"
    and "\<forall>k c. fst (cache_delete env k c) \<noteq> Pending"
    and "config_get_CACHE env \<noteq> Inl Thrown_null"
    and "config_get_CACHE env \<noteq> Inl Thrown_undefined"
  shows "\<exists>hs w'. getHealthStatus env w = (Resolved hs, w')
     \<and> (\<forall>err w''.
           getHealthStatus_try env (clock env (ticks w)) (w\<lparr>ticks := Suc (ticks w)\<rparr>)
             = (Rejected err, w'')
           \<longrightarrow> (\<exists>m. message_of err = Inr m
             \<and> overall hs = unhealthy
             \<and> database hs = \<lparr>status = db_error, responseTime = None, error = m\<rparr>
             \<and> redis hs = \<lparr>status = redis_error, responseTime = None, error = m\<rparr>
             \<and> instances hs = \<lparr>total = 0, active = 0, inactive = 0\<rparr>
             \<and> version hs = package_version env
             \<and> timestamp hs = clock env (ticks w'')
             \<and> uptime hs = (clock env (Suc (ticks w'')) - startTime env) div 1000
             \<and> memory hs = getMemoryUsage env
             \<and> system hs = getSystemInfo env))"
proof -
  from assms obtain hs w' where run: "getHealthStatus env w = (Resolved hs, w')"
    using getHealthStatus_total [of env w] by blast
  have "\<forall>err w''.
           getHealthStatus_try env (clock env (ticks w)) (w\<lparr>ticks := Suc (ticks w)\<rparr>)
             = (Rejected err, w'')
           \<longrightarrow> (\<exists>m. message_of err = Inr m
             \<and> overall hs = unhealthy
             \<and> database hs = \<lparr>status = db_error, responseTime = None, error = m\<rparr>
             \<and> redis hs = \<lparr>status = redis_error, responseTime = None, error = m\<rparr>
             \<and> instances hs = \<lparr>total = 0, active = 0, inactive = 0\<rparr>
             \<and> version hs = package_version env
             \<and> timestamp hs = clock env (ticks w'')
             \<and> uptime hs = (clock env (Suc (ticks w'')) - startTime env) div 1000
             \<and> memory hs = getMemoryUsage env
             \<and> system hs = getSystemInfo env)"
    using getHealthStatus_resolved [OF run]
    by (auto simp add: getHealthStatus_catch_eq)
  with run show ?thesis by blast
qed

text \<open>
  A configuration service that yields \<open>undefined\<close> for \<open>CACHE\<close> makes the cache probe
  throw a TypeError, which leaves the \<open>try\<close> block.
\<close>

theorem getHealthStatus_never_throws_witness:
  "queryRaw env_without_config \<noteq> Pending
   \<and> (\<forall>k v t c. fst (cache_set env_without_config k v t c) \<noteq> Pending)
   \<and> (\<forall>k c. fst (cache_get env_without_config k c) \<noteq> Pending)
   \<and> (\<forall>k c. fst (cache_delete env_without_config k c) \<noteq> Pending)
   \<and> config_get_CACHE env_without_config = Inr Undefined
   \<and> getHealthStatus_try env_without_config (clock env_without_config (ticks world0))
          (world0\<lparr>ticks := Suc (ticks world0)\<rparr>)
        = (Rejected (Error ''Cannot read properties of undefined (reading 'REDIS')''),
           \<lparr>ticks = 3, cache_state = [], log = []\<rparr>)
   \<and> (\<exists>hs w'. getHealthStatus env_without_config world0 = (Resolved hs, w')
     \<and> overall hs = unhealthy
     \<and> database hs = \<lparr>status = db_error, responseTime = None,
           error = Some ''Cannot read properties of undefined (reading 'REDIS')''\<rparr>
     \<and> redis hs = \<lparr>status = redis_error, responseTime = None,
           error = Some ''Cannot read properties of undefined (reading 'REDIS')''\<rparr>
     \<and> instances hs = \<lparr>total = 0, active = 0, inactive = 0\<rparr>)"
proof -
  have settle: "queryRaw env_without_config \<noteq> Pending"
    "\<forall>k v t c. fst (cache_set env_without_config k v t c) \<noteq> Pending"
    "\<forall>k c. fst (cache_get env_without_config k c) \<noteq> Pending"
    "\<forall>k c. fst (cache_delete env_without_config k c) \<noteq> Pending"
    by (simp_all add: env_without_config_def sample_env_def memory_set_def memory_get_def
        memory_delete_def)
  have config: "config_get_CACHE env_without_config = Inr Undefined"
    by (simp add: env_without_config_def)
  have left: "getHealthStatus_try env_without_config (clock env_without_config (ticks world0))
          (world0\<lparr>ticks := Suc (ticks world0)\<rparr>)
        = (Rejected (Error ''Cannot read properties of undefined (reading 'REDIS')''),
           \<lparr>ticks = 3, cache_state = [], log = []\<rparr>)"
    by (simp add: getHealthStatus_try_eq bind_io_def checkDatabaseHealth_eq
        checkRedisHealth_def get_redisConfig_def throw_io_def env_without_config_def
        sample_env_def world0_def)
  from getHealthStatus_never_throws [of env_without_config world0] settle config
  obtain hs w' where run: "getHealthStatus env_without_config world0 = (Resolved hs, w')"
    and caught: "\<forall>err w''.
           getHealthStatus_try env_without_config (clock env_without_config (ticks world0))
             (world0\<lparr>ticks := Suc (ticks world0)\<rparr>) = (Rejected err, w'')
           \<longrightarrow> (\<exists>m. message_of err = Inr m
             \<and> overall hs = unhealthy
             \<and> database hs = \<lparr>status = db_error, responseTime = None, error = m\<rparr>
             \<and> redis hs = \<lparr>status = redis_error, responseTime = None, error = m\<rparr>
             \<and> instances hs = \<lparr>total = 0, active = 0, inactive = 0\<rparr>
             \<and> version hs = package_version env_without_config
             \<and> timestamp hs = clock env_without_config (ticks w'')
             \<and> uptime hs = (clock env_without_config (Suc (ticks w''))
                  - startTime env_without_config) div 1000
             \<and> memory hs = getMemoryUsage env_without_config
             \<and> system hs = getSystemInfo env_without_config)"
    by auto
  from caught left have "overall hs = unhealthy
     \<and> database hs = \<lparr>status = db_error, responseTime = None,
           error = Some ''Cannot read properties of undefined (reading 'REDIS')''\<rparr>
     \<and> redis hs = \<lparr>status = redis_error, responseTime = None,
           error = Some ''Cannot read properties of undefined (reading 'REDIS')''\<rparr>
     \<and> instances hs = \<lparr>total = 0, active = 0, inactive = 0\<rparr>"
    by (auto simp add: message_of_def)
  with settle config left run show ?thesis by blast
qed

text \<open>
  Claim C2 as stated asks for a fixed message and for a value on every call. The message
  is the caught exception's: a configuration service that yields \<open>undefined\<close> and one
  that throws \<open>Configuration unavailable\<close> give two different messages. A configuration
  service that throws \<open>null\<close> or \<open>undefined\<close> makes the \<open>catch\<close> block itself throw, on
  reading \<open>error.message\<close>, and \<open>getHealthStatus\<close> rejects. A database query or a cache
  operation (\<open>set\<close>, \<open>get\<close> or \<open>delete\<close>) that never settles leaves \<open>getHealthStatus\<close>
  pending.
\<close>

theorem getHealthStatus_counterexample:
  "fst (getHealthStatus env_without_config world0)
     = Resolved (resolved (fst (getHealthStatus env_without_config world0)))
   \<and> error (database (resolved (fst (getHealthStatus env_without_config world0))))
     = Some ''Cannot read properties of undefined (reading 'REDIS')''
   \<and> fst (getHealthStatus env_config_throws world0)
     = Resolved (resolved (fst (getHealthStatus env_config_throws world0)))
   \<and> error (database (resolved (fst (getHealthStatus env_config_throws world0))))
     = Some ''Configuration unavailable''
   \<and> error (redis (resolved (fst (getHealthStatus env_config_throws world0))))
     = Some ''Configuration unavailable''
   \<and> config_get_CACHE env_config_throws_null = Inl Thrown_null
   \<and> fst (getHealthStatus env_config_throws_null world0)
     = Rejected (Error ''Cannot read properties of null (reading 'message')'')
   \<and> config_get_CACHE env_config_throws_undefined = Inl Thrown_undefined
   \<and> fst (getHealthStatus env_config_throws_undefined world0)
     = Rejected (Error ''Cannot read properties of undefined (reading 'message')'')
   \<and> queryRaw env_database_hangs = Pending
   \<and> fst (getHealthStatus env_database_hangs world0) = Pending
   \<and> fst (getHealthStatus env_cache_set_hangs world0) = Pending
   \<and> fst (getHealthStatus env_cache_get_hangs world0) = Pending
   \<and> fst (getHealthStatus env_cache_delete_hangs world0) = Pending"
proof -
  have thrown: "config_get_CACHE env_config_throws_null = Inl Thrown_null"
    by (simp add: env_config_throws_null_def)
  have thrown': "config_get_CACHE env_config_throws_undefined = Inl Thrown_undefined"
    by (simp add: env_config_throws_undefined_def)
  have hangs: "queryRaw env_database_hangs = Pending"
    by (simp add: env_database_hangs_def)
  from thrown thrown' hangs show ?thesis
    by (simp add: without_config_run config_throws_run config_throws_null_run
        config_throws_undefined_run database_hangs_run cache_hangs_run)
qed

section \<open>The instance statistics\<close>

lemma lookup_instance_entry:
  "distinct (map fst table) \<Longrightarrow> (n, h) \<in> set table \<Longrightarrow> lookup_instance table n = h"
  by (simp add: lookup_instance_def)

lemma open_keys_are_open_entries:
  assumes "distinct (map fst table)"
  shows "length (filter (\<lambda>n. is_open (lookup_instance table n)) (map fst table))
       = length (filter (\<lambda>entry. is_open (snd entry)) table)"
proof -
  have "filter (\<lambda>n. is_open (lookup_instance table n)) (map fst table)
      = map fst (filter (\<lambda>entry. is_open (lookup_instance table (fst entry))) table)"
    by (simp add: filter_map comp_def)
  moreover have "filter (\<lambda>entry. is_open (lookup_instance table (fst entry))) table
      = filter (\<lambda>entry. is_open (snd entry)) table"
    using assms by (intro filter_cong refl) (auto simp add: lookup_instance_entry)
  ultimately show ?thesis by simp
qed

lemma filter_split_length:
  "int (length (filter P xs)) + int (length (filter (\<lambda>x. \<not> P x) xs)) = int (length xs)"
  using sum_length_filter_compl [of P xs] by linarith

lemma statistics_add_up:
  "getInstanceStatistics env w = (Resolved st, w') \<Longrightarrow> active st + inactive st = total st"
  using filter_split_length [of "\<lambda>name. is_open (lookup_instance (projr (waInstances env)) name)"
      "map fst (projr (waInstances env))"]
  by (auto simp add: getInstanceStatistics_eq split: sum.splits)

lemma statistics_any_world:
  "getInstanceStatistics env w3 = (Resolved st, w4)
     \<Longrightarrow> fst (getInstanceStatistics env w) = Resolved st"
  by (auto simp add: getInstanceStatistics_eq split: sum.splits)

lemma sample_try_resolves:
  "fst (getHealthStatus_try sample_env (clock sample_env (ticks world0))
         (world0\<lparr>ticks := Suc (ticks world0)\<rparr>))
     = Resolved (resolved (fst (getHealthStatus sample_env world0)))"
  using sample_run
  by (auto simp add: getHealthStatus_eq split: prod.splits outcome.splits sum.splits
      simp add: getHealthStatus_catch_eq)

lemma sample_statistics:
  "fst (getInstanceStatistics sample_env world0)
     = Resolved \<lparr>total = 2, active = 1, inactive = 1\<rparr>"
  by (simp add: getInstanceStatistics_eq sample_env_def is_open_def lookup_instance_def
      state_of_def handle_in_state_def)

text \<open>
  Claim C3. In every \<open>HealthStatus\<close> that \<open>getHealthStatus\<close> returns, the active and the
  inactive count add up to the total: the counts are the statistics of the registry when
  the \<open>try\<close> block resolved, and zero when an exception left it. The statistics add up
  whenever \<open>getInstanceStatistics\<close> resolves. It resolves with zeros for a registry whose
  reading throws a value with a readable message, and for every table, the empty one
  included, it resolves with the number of keys as the total and with the number of keys
  whose handle has the connection state \<open>open\<close> as the active count, which for a table
  with distinct keys is the number of its entries in that state.
\<close>

theorem instance_counts_add_up:
  "(\<forall>hs w'. getHealthStatus env w = (Resolved hs, w')
      \<longrightarrow> active (instances hs) + inactive (instances hs) = total (instances hs)
        \<and> (case fst (getHealthStatus_try env (clock env (ticks w))
                        (w\<lparr>ticks := Suc (ticks w)\<rparr>)) of
             Resolved tried \<Rightarrow> fst (getInstanceStatistics env w) = Resolved (instances hs)
           | Rejected err \<Rightarrow> instances hs = \<lparr>total = 0, active = 0, inactive = 0\<rparr>
           | Pending \<Rightarrow> False))
   \<and> (\<forall>st w'. getInstanceStatistics env w = (Resolved st, w')
      \<longrightarrow> active st + inactive st = total st)
   \<and> (case waInstances env of
         Inl e \<Rightarrow>
           \<not> nullish e
           \<longrightarrow> fst (getInstanceStatistics env w)
               = Resolved \<lparr>total = 0, active = 0, inactive = 0\<rparr>
       | Inr table \<Rightarrow>
           (\<exists>st. getInstanceStatistics env w = (Resolved st, w)
              \<and> active st + inactive st = total st
              \<and> total st = int (length table)
              \<and> active st
                  = int (length (filter (\<lambda>name. is_open (lookup_instance table name))
                                   (map fst table)))
              \<and> (distinct (map fst table)
                   \<longrightarrow> active st
                       = int (length (filter (\<lambda>entry. is_open (snd entry)) table)))))"
proof -
  have status: "\<forall>hs w'. getHealthStatus env w = (Resolved hs, w')
      \<longrightarrow> active (instances hs) + inactive (instances hs) = total (instances hs)
        \<and> (case fst (getHealthStatus_try env (clock env (ticks w))
                        (w\<lparr>ticks := Suc (ticks w)\<rparr>)) of
             Resolved tried \<Rightarrow> fst (getInstanceStatistics env w) = Resolved (instances hs)
           | Rejected err \<Rightarrow> instances hs = \<lparr>total = 0, active = 0, inactive = 0\<rparr>
           | Pending \<Rightarrow> False)"
  proof (intro allI impI)
    fix hs w'
    assume run: "getHealthStatus env w = (Resolved hs, w')"
    from getHealthStatus_resolved [OF run]
    show "active (instances hs) + inactive (instances hs) = total (instances hs)
        \<and> (case fst (getHealthStatus_try env (clock env (ticks w))
                        (w\<lparr>ticks := Suc (ticks w)\<rparr>)) of
             Resolved tried \<Rightarrow> fst (getInstanceStatistics env w) = Resolved (instances hs)
           | Rejected err \<Rightarrow> instances hs = \<lparr>total = 0, active = 0, inactive = 0\<rparr>
           | Pending \<Rightarrow> False)"
      by (elim disjE exE conjE)
        (auto simp add: getHealthStatus_catch_eq dest: statistics_add_up statistics_any_world)
  qed
  have stats: "\<forall>st w'. getInstanceStatistics env w = (Resolved st, w')
      \<longrightarrow> active st + inactive st = total st"
    by (blast dest: statistics_add_up)
  have registry: "case waInstances env of
         Inl e \<Rightarrow>
           \<not> nullish e
           \<longrightarrow> fst (getInstanceStatistics env w)
               = Resolved \<lparr>total = 0, active = 0, inactive = 0\<rparr>
       | Inr table \<Rightarrow>
           (\<exists>st. getInstanceStatistics env w = (Resolved st, w)
              \<and> active st + inactive st = total st
              \<and> total st = int (length table)
              \<and> active st
                  = int (length (filter (\<lambda>name. is_open (lookup_instance table name))
                                   (map fst table)))
              \<and> (distinct (map fst table)
                   \<longrightarrow> active st
                       = int (length (filter (\<lambda>entry. is_open (snd entry)) table))))"
  proof (cases "waInstances env")
    case (Inl e)
    then show ?thesis
      using message_of_cases [of e] by (auto simp add: getInstanceStatistics_eq)
  next
    case (Inr table)
    let ?act = "int (length (filter (\<lambda>name. is_open (lookup_instance table name))
                                   (map fst table)))"
    let ?inact = "int (length (filter (\<lambda>name. \<not> is_open (lookup_instance table name))
                                   (map fst table)))"
    let ?st = "\<lparr>total = int (length table), active = ?act, inactive = ?inact\<rparr>"
    have run: "getInstanceStatistics env w = (Resolved ?st, w)"
      using Inr by (simp only: getInstanceStatistics_eq sum.case)
    have sum: "?act + ?inact = int (length table)"
      using filter_split_length [of "\<lambda>name. is_open (lookup_instance table name)" "map fst table"]
      by (simp only: length_map)
    have entries: "distinct (map fst table)
        \<longrightarrow> ?act = int (length (filter (\<lambda>entry. is_open (snd entry)) table))"
    proof
      assume keys: "distinct (map fst table)"
      show "?act = int (length (filter (\<lambda>entry. is_open (snd entry)) table))"
        by (simp only: open_keys_are_open_entries [OF keys])
    qed
    from run sum entries Inr show ?thesis
      by (simp only: sum.case) (intro exI [of _ ?st], simp del: length_filter_map filter_map)
  qed
  from status stats registry show ?thesis by blast
qed

theorem instance_counts_add_up_witness:
  "\<exists>hs w'. getHealthStatus sample_env world0 = (Resolved hs, w')
     \<and> instances hs = \<lparr>total = 2, active = 1, inactive = 1\<rparr>
     \<and> active (instances hs) + inactive (instances hs) = total (instances hs)
     \<and> waInstances sample_env
         = Inr [(''instance1'', handle_in_state ''open''),
                (''instance2'', handle_in_state ''close'')]
     \<and> distinct (map fst [(''instance1'', handle_in_state ''open''),
                           (''instance2'', handle_in_state ''close'')])
     \<and> active (instances hs)
         = int (length (filter (\<lambda>entry. is_open (snd entry))
                          [(''instance1'', handle_in_state ''open''),
                           (''instance2'', handle_in_state ''close'')]))"
proof -
  obtain hs w' where run: "getHealthStatus sample_env world0 = (Resolved hs, w')"
    using sample_run by blast
  with instance_counts_add_up [of sample_env world0]
  have "case fst (getHealthStatus_try sample_env (clock sample_env (ticks world0))
                        (world0\<lparr>ticks := Suc (ticks world0)\<rparr>)) of
             Resolved tried \<Rightarrow>
               fst (getInstanceStatistics sample_env world0) = Resolved (instances hs)
           | Rejected err \<Rightarrow> instances hs = \<lparr>total = 0, active = 0, inactive = 0\<rparr>
           | Pending \<Rightarrow> False"
    by blast
  then have counts: "instances hs = \<lparr>total = 2, active = 1, inactive = 1\<rparr>"
    by (simp add: sample_try_resolves sample_statistics)
  have table: "waInstances sample_env
         = Inr [(''instance1'', handle_in_state ''open''),
                (''instance2'', handle_in_state ''close'')]"
    by (simp add: sample_env_def)
  from run counts table show ?thesis
    by (simp add: is_open_def state_of_def handle_in_state_def)
qed

section \<open>The disabled cache\<close>

lemma checkRedisHealth_disabled:
  "config_get_CACHE env = Inr (Defined cfg) \<Longrightarrow> REDIS cfg = Defined rc \<Longrightarrow> \<not> ENABLED rc \<Longrightarrow>
   checkRedisHealth env w
     = (Resolved \<lparr>status = redis_disabled, responseTime = None, error = None\<rparr>, w)"
  by (simp add: checkRedisHealth_def get_redisConfig_def read_ENABLED_def bind_io_def
      return_io_def)

lemma connected_means_resolved:
  "checkDatabaseHealth env w = (Resolved db, w') \<Longrightarrow> status db = db_connected
     \<Longrightarrow> queryRaw env = Resolved ()"
  by (cases "queryRaw env")
    (auto simp add: checkDatabaseHealth_eq split: sum.splits)

text \<open>
  Claim C8. When the configuration has the cache disabled, \<open>checkRedisHealth\<close> returns
  the status \<open>disabled\<close>, without response time or error, and leaves the world exactly as
  it found it: no clock reading, no log entry, no change of the cache's state. No cache
  operation takes part in the outcome, which is the same whatever \<open>set\<close>, \<open>get\<close> and
  \<open>delete\<close> would do. \<open>getHealthStatus\<close> then leaves the cache's state unchanged too,
  whatever its outcome; a status it returns is \<open>healthy\<close> exactly when its database field
  is \<open>connected\<close>, which takes a database round trip that succeeded; and when the round
  trip succeeds and the registry can be read (or throws a value with a readable message),
  it returns the verdict \<open>healthy\<close> with the database \<open>connected\<close> and the cache
  \<open>disabled\<close>.
\<close>

theorem disabled_cache_is_not_probed:
  assumes "config_get_CACHE env = Inr (Defined cfg)" and "REDIS cfg = Defined rc"
    and "\<not> ENABLED rc"
  shows "checkRedisHealth env w
           = (Resolved \<lparr>status = redis_disabled, responseTime = None, error = None\<rparr>, w)
     \<and> checkRedisHealth (env\<lparr>cache_set := set', cache_get := get', cache_delete := delete'\<rparr>) w
           = checkRedisHealth env w
     \<and> cache_state (snd (getHealthStatus env w)) = cache_state w
     \<and> (\<forall>hs w'. getHealthStatus env w = (Resolved hs, w')
           \<longrightarrow> (overall hs = healthy) = (status (database hs) = db_connected)
             \<and> (status (database hs) = db_connected \<longrightarrow> queryRaw env = Resolved ()))
     \<and> (queryRaw env = Resolved () \<and> (\<forall>e. waInstances env = Inl e \<longrightarrow> \<not> nullish e)
           \<longrightarrow> (\<exists>hs w'. getHealthStatus env w = (Resolved hs, w')
                 \<and> overall hs = healthy
                 \<and> status (database hs) = db_connected
                 \<and> redis hs
                     = \<lparr>status = redis_disabled, responseTime = None, error = None\<rparr>))"
proof -
  have probe: "\<And>w. checkRedisHealth env w
           = (Resolved \<lparr>status = redis_disabled, responseTime = None, error = None\<rparr>, w)"
    using assms by (rule checkRedisHealth_disabled)
  have other: "checkRedisHealth (env\<lparr>cache_set := set', cache_get := get', cache_delete := delete'\<rparr>) w
           = (Resolved \<lparr>status = redis_disabled, responseTime = None, error = None\<rparr>, w)"
    using assms by (intro checkRedisHealth_disabled [of _ cfg rc]) simp_all
  have cache: "cache_state (snd (getHealthStatus env w)) = cache_state w"
  proof (cases "checkDatabaseHealth env (w\<lparr>ticks := Suc (ticks w)\<rparr>)")
    case (Pair d w2)
    then have w2: "cache_state w2 = cache_state w"
      by (auto dest: checkDatabaseHealth_world)
    show ?thesis
    proof (cases "getInstanceStatistics env w2")
      case stats: (Pair i w4)
      then have w4: "cache_state w4 = cache_state w2"
        by (auto dest: getInstanceStatistics_world)
      have caught: "\<And>e w1. cache_state (snd (getHealthStatus_catch env e w1)) = cache_state w1"
        by (metis getHealthStatus_catch_world prod.collapse)
      from Pair stats w2 w4 show ?thesis
        by (cases d; cases i)
          (simp_all add: getHealthStatus_eq getHealthStatus_try_eq probe caught)
    qed
  qed
  have verdict: "\<forall>hs w'. getHealthStatus env w = (Resolved hs, w')
           \<longrightarrow> (overall hs = healthy) = (status (database hs) = db_connected)
             \<and> (status (database hs) = db_connected \<longrightarrow> queryRaw env = Resolved ())"
  proof (intro allI impI)
    fix hs w'
    assume run: "getHealthStatus env w = (Resolved hs, w')"
    from getHealthStatus_resolved [OF run]
    show "(overall hs = healthy) = (status (database hs) = db_connected)
             \<and> (status (database hs) = db_connected \<longrightarrow> queryRaw env = Resolved ())"
      by (elim disjE exE conjE)
        (auto simp add: getHealthStatus_catch_eq probe determineOverallStatus_def
          split: sum.splits dest: connected_means_resolved)
  qed
  have reachable: "queryRaw env = Resolved () \<and> (\<forall>e. waInstances env = Inl e \<longrightarrow> \<not> nullish e)
           \<longrightarrow> (\<exists>hs w'. getHealthStatus env w = (Resolved hs, w')
                 \<and> overall hs = healthy
                 \<and> status (database hs) = db_connected
                 \<and> redis hs
                     = \<lparr>status = redis_disabled, responseTime = None, error = None\<rparr>)"
  proof (intro impI, elim conjE)
    assume db: "queryRaw env = Resolved ()"
      and registry: "\<forall>e. waInstances env = Inl e \<longrightarrow> \<not> nullish e"
    have "\<And>w3. \<exists>st w4. getInstanceStatistics env w3 = (Resolved st, w4)"
    proof (cases "waInstances env")
      case (Inl e)
      fix w3
      from Inl registry have "\<not> nullish e" by blast
      with Inl show "\<exists>st w4. getInstanceStatistics env w3 = (Resolved st, w4)"
        using message_of_cases [of e] by (auto simp add: getInstanceStatistics_eq)
    next
      case (Inr table)
      fix w3
      from Inr show "\<exists>st w4. getInstanceStatistics env w3 = (Resolved st, w4)"
        by (simp add: getInstanceStatistics_eq)
    qed
    then obtain st w4 where
      "getInstanceStatistics env (w\<lparr>ticks := Suc (Suc (Suc (ticks w)))\<rparr>) = (Resolved st, w4)"
      by blast
    with db show "\<exists>hs w'. getHealthStatus env w = (Resolved hs, w')
                 \<and> overall hs = healthy
                 \<and> status (database hs) = db_connected
                 \<and> redis hs
                     = \<lparr>status = redis_disabled, responseTime = None, error = None\<rparr>"
      by (simp add: getHealthStatus_eq getHealthStatus_try_eq checkDatabaseHealth_eq probe
          determineOverallStatus_def)
  qed
  from probe [of w] other cache verdict reachable show ?thesis by simp
qed

text \<open>
  The scenario of the test \<open>should handle Redis disabled configuration\<close>, with an empty
  registry: a \<open>set\<close> that would reject is never reached.
\<close>

theorem disabled_cache_is_not_probed_witness:
  "config_get_CACHE redis_disabled_env = Inr (Defined \<lparr>REDIS = Defined \<lparr>ENABLED = False\<rparr>\<rparr>)
   \<and> checkRedisHealth redis_disabled_env world0
        = (Resolved \<lparr>status = redis_disabled, responseTime = None, error = None\<rparr>, world0)
   \<and> checkRedisHealth
        (redis_disabled_env\<lparr>cache_set := rejecting_set (Error ''Redis connection failed'')\<rparr>)
        world0
        = checkRedisHealth redis_disabled_env world0
   \<and> queryRaw redis_disabled_env = Resolved ()
   \<and> waInstances redis_disabled_env = Inr []
   \<and> overall (resolved (fst (getHealthStatus redis_disabled_env world0))) = healthy
   \<and> cache_state (snd (getHealthStatus redis_disabled_env world0)) = cache_state world0"
proof -
  have cfg: "config_get_CACHE redis_disabled_env
      = Inr (Defined \<lparr>REDIS = Defined \<lparr>ENABLED = False\<rparr>\<rparr>)"
    by (simp add: redis_disabled_env_def)
  have db: "queryRaw redis_disabled_env = Resolved ()"
    "waInstances redis_disabled_env = Inr []"
    by (simp_all add: redis_disabled_env_def sample_env_def)
  have same: "redis_disabled_env\<lparr>cache_set := rejecting_set (Error ''Redis connection failed''),
        cache_get := cache_get redis_disabled_env,
        cache_delete := cache_delete redis_disabled_env\<rparr>
      = redis_disabled_env\<lparr>cache_set := rejecting_set (Error ''Redis connection failed'')\<rparr>"
    by simp
  from disabled_cache_is_not_probed [OF cfg, where rc = "\<lparr>ENABLED = False\<rparr>"
      and w = world0 and set' = "rejecting_set (Error ''Redis connection failed'')"
      and get' = "cache_get redis_disabled_env"
      and delete' = "cache_delete redis_disabled_env"] cfg db same
  have applied: "config_get_CACHE redis_disabled_env
        = Inr (Defined \<lparr>REDIS = Defined \<lparr>ENABLED = False\<rparr>\<rparr>)
   \<and> checkRedisHealth redis_disabled_env world0
        = (Resolved \<lparr>status = redis_disabled, responseTime = None, error = None\<rparr>, world0)
   \<and> checkRedisHealth
        (redis_disabled_env\<lparr>cache_set := rejecting_set (Error ''Redis connection failed'')\<rparr>)
        world0
        = checkRedisHealth redis_disabled_env world0
   \<and> cache_state (snd (getHealthStatus redis_disabled_env world0)) = cache_state world0
   \<and> (\<exists>hs w'. getHealthStatus redis_disabled_env world0 = (Resolved hs, w')
         \<and> overall hs = healthy)"
    by auto
  then have "overall (resolved (fst (getHealthStatus redis_disabled_env world0))) = healthy"
    by auto
  with applied db show ?thesis
    by simp
qed

section \<open>Metrics\<close>

lemma getMetrics_using_eq:
  "getMetrics_using formatter env w =
     (case getHealthStatus env w of
        (Pending, w1) \<Rightarrow> (Pending, w1)
      | (Resolved hs, w1) \<Rightarrow>
          (case formatter (metrics_of hs) of
             Inr exposition \<Rightarrow> (Resolved exposition, w1)
           | Inl e \<Rightarrow>
               (case message_of e of
                  Inl te \<Rightarrow> (Rejected te, w1)
                | Inr m \<Rightarrow>
                    (Rejected e,
                     w1\<lparr>log := log w1 @ [Log_error ''Failed to generate metrics'' m]\<rparr>)))
      | (Rejected e, w1) \<Rightarrow>
          (case message_of e of
             Inl te \<Rightarrow> (Rejected te, w1)
           | Inr m \<Rightarrow>
               (Rejected e,
                w1\<lparr>log := log w1 @ [Log_error ''Failed to generate metrics'' m]\<rparr>)))"
  by (simp add: getMetrics_using_def try_catch_def bind_io_def sync_def logger_error_def
      throw_io_def split: prod.splits outcome.splits sum.splits)

lemma split_lines_line: "CHR 10 \<notin> set l \<Longrightarrow> split_lines l = [l]"
  by (induction l) auto

lemma split_lines_append:
  "CHR 10 \<notin> set l \<Longrightarrow> split_lines (l @ CHR 10 # rest) = l # split_lines rest"
  by (induction l) auto

lemma split_lines_join:
  "ls \<noteq> [] \<Longrightarrow> \<forall>l \<in> set ls. CHR 10 \<notin> set l \<Longrightarrow> split_lines (join [CHR 10] ls) = ls"
  by (induction "[CHR 10]" ls rule: join.induct)
    (simp_all add: split_lines_line split_lines_append)

lemma digit_char_digit: "d < 10 \<Longrightarrow> digit_char d \<in> set ''0123456789''"
  unfolding digit_char_def by (rule nth_mem) simp

lemma digits_of_nat_digits: "set (digits_of_nat n) \<subseteq> set ''0123456789''"
proof (induction n rule: digits_of_nat.induct)
  case (1 n)
  show ?case
  proof (cases "n < 10")
    case True
    then show ?thesis
      using digit_char_digit [of n] by (subst digits_of_nat.simps) simp
  next
    case False
    with "1" digit_char_digit [of "n mod 10"] show ?thesis
      by (subst digits_of_nat.simps) simp
  qed
qed

lemma string_of_number_line: "CHR 10 \<notin> set (string_of_number i)"
  using digits_of_nat_digits [of "nat i"] digits_of_nat_digits [of "nat (- i)"]
  by (auto simp add: string_of_number_def)

lemma metric_lines_are_lines: "\<forall>l \<in> set (metric_lines metrics). CHR 10 \<notin> set l"
  by (simp add: metric_lines_def string_of_number_line)

lemma split_lines_exposition:
  "split_lines (formatPrometheusMetrics metrics) = metric_lines metrics"
  unfolding formatPrometheusMetrics_def
  by (rule split_lines_join) (simp add: metric_lines_def, rule metric_lines_are_lines)

lemma string_of_bit: "string_of_number 0 = ''0''" "string_of_number 1 = ''1''"
  by (simp_all add: string_of_number_def digits_of_nat.simps digit_char_def)

lemma sample_numbers:
  "string_of_number 3600 = ''3600''" "string_of_number 100000000 = ''100000000''"
  "string_of_number 2 = ''2''" "string_of_number 5 = ''5''"
  by (simp_all add: string_of_number_def digits_of_nat.simps digit_char_def)




text \<open>
  Claim C10. For every health status, the text that \<open>formatPrometheusMetrics\<close> renders
  from it, which is the text \<open>getMetrics\<close> returns for that status, has exactly one line
  giving a value of the gauge \<open>evolution_api_redis_up\<close>: \<open>evolution_api_redis_up 1\<close>
  when the cache status is \<open>connected\<close> and \<open>evolution_api_redis_up 0\<close> for every other
  status. A cache disabled by configuration and a cache in error therefore give the same
  exposition, whatever response time and message the failed probe reports.
\<close>

theorem redis_up_gauge:
  "redis_connection_status (metrics_of hs)
     = (if status (redis hs) = redis_connected then 1 else 0)
   \<and> redis_up_lines (formatPrometheusMetrics (metrics_of hs))
     = [''evolution_api_redis_up '' @ (if status (redis hs) = redis_connected then ''1'' else ''0'')]
   \<and> (\<forall>w1. getHealthStatus env w = (Resolved hs, w1)
        \<longrightarrow> getMetrics env w = (Resolved (formatPrometheusMetrics (metrics_of hs)), w1))
   \<and> formatPrometheusMetrics
       (metrics_of (hs\<lparr>redis := \<lparr>status = redis_disabled, responseTime = None, error = None\<rparr>\<rparr>))
     = formatPrometheusMetrics
       (metrics_of (hs\<lparr>redis := \<lparr>status = redis_error, responseTime = t, error = m\<rparr>\<rparr>))"
proof -
  have gauge: "redis_up_lines (formatPrometheusMetrics (metrics_of hs))
     = [''evolution_api_redis_up '' @ (if status (redis hs) = redis_connected then ''1'' else ''0'')]"
    unfolding redis_up_lines_def split_lines_exposition
    by (simp add: metrics_of_def metric_lines_def string_of_bit)
  have returned: "\<forall>w1. getHealthStatus env w = (Resolved hs, w1)
        \<longrightarrow> getMetrics env w = (Resolved (formatPrometheusMetrics (metrics_of hs)), w1)"
    by (simp add: getMetrics_def getMetrics_using_eq)
  have same: "formatPrometheusMetrics
       (metrics_of (hs\<lparr>redis := \<lparr>status = redis_disabled, responseTime = None, error = None\<rparr>\<rparr>))
     = formatPrometheusMetrics
       (metrics_of (hs\<lparr>redis := \<lparr>status = redis_error, responseTime = t, error = m\<rparr>\<rparr>))"
    by (simp add: metrics_of_def metric_lines_def formatPrometheusMetrics_def string_of_bit)
  from gauge returned same show ?thesis
    by (simp add: metrics_of_def)
qed

text \<open>
  The text returned with the cache disabled, and the gauge in it and in the text returned
  with the cache connected.
\<close>

theorem redis_up_gauge_witness:
  "getMetrics redis_disabled_env world0
     = (Resolved (formatPrometheusMetrics
          (metrics_of (resolved (fst (getHealthStatus redis_disabled_env world0))))),
        \<lparr>ticks = 6, cache_state = [],
         log = [Log_debug ''Health check completed'' healthy 25]\<rparr>)
   \<and> redis_up_lines (resolved (fst (getMetrics redis_disabled_env world0)))
     = [''evolution_api_redis_up 0'']
   \<and> redis_up_lines (resolved (fst (getMetrics sample_env world0)))
     = [''evolution_api_redis_up 1'']"
proof -
  from redis_up_gauge [of "resolved (fst (getHealthStatus redis_disabled_env world0))"
      redis_disabled_env world0]
  have disabled: "getMetrics redis_disabled_env world0
     = (Resolved (formatPrometheusMetrics
          (metrics_of (resolved (fst (getHealthStatus redis_disabled_env world0))))),
        \<lparr>ticks = 6, cache_state = [],
         log = [Log_debug ''Health check completed'' healthy 25]\<rparr>)"
    and disabled_gauge: "redis_up_lines (formatPrometheusMetrics
          (metrics_of (resolved (fst (getHealthStatus redis_disabled_env world0)))))
       = [''evolution_api_redis_up 0'']"
    by (simp_all add: disabled_run)
  from redis_up_gauge [of "resolved (fst (getHealthStatus sample_env world0))"
      sample_env world0]
  have connected: "getMetrics sample_env world0
     = (Resolved (formatPrometheusMetrics
          (metrics_of (resolved (fst (getHealthStatus sample_env world0))))),
        \<lparr>ticks = 9, cache_state = [],
         log = [Log_debug ''Health check completed'' healthy 40]\<rparr>)"
    and connected_gauge: "redis_up_lines (formatPrometheusMetrics
          (metrics_of (resolved (fst (getHealthStatus sample_env world0)))))
       = [''evolution_api_redis_up 1'']"
    by (simp_all add: sample_run)
  from disabled disabled_gauge connected connected_gauge show ?thesis
    by simp
qed

text \<open>
  Claim C4. The exposition of a health check with database and cache both connected (the
  sample environment, where the cache probe took 10 ms) is the text below: seven series,
  each with its \<open># HELP\<close> and \<open># TYPE\<close> line, for uptime (counter), memory usage, total
  and active instances, database up, database response time and cache up (gauges). There
  is no series for the cache response time, although the metrics data carries it. This holds
  for all metrics: the \<open># TYPE\<close> lines, of the array and of the text split at its
  newlines, are always these seven, and the text does not depend on the cache response
  time.
\<close>

theorem cache_response_time_is_not_rendered:
  "fst (getMetrics sample_env world0)
     = Resolved (join [CHR 10]
        [''# HELP evolution_api_uptime_seconds Total uptime of the application in seconds'',
         ''# TYPE evolution_api_uptime_seconds counter'',
         ''evolution_api_uptime_seconds 3600'',
         [],
         ''# HELP evolution_api_memory_usage_bytes Current memory usage in bytes'',
         ''# TYPE evolution_api_memory_usage_bytes gauge'',
         ''evolution_api_memory_usage_bytes 100000000'',
         [],
         ''# HELP evolution_api_instances_total Total number of WhatsApp instances'',
         ''# TYPE evolution_api_instances_total gauge'',
         ''evolution_api_instances_total 2'',
         [],
         ''# HELP evolution_api_instances_active Number of active WhatsApp instances'',
         ''# TYPE evolution_api_instances_active gauge'',
         ''evolution_api_instances_active 1'',
         [],
         ''# HELP evolution_api_database_up Database connection status (1 = up, 0 = down)'',
         ''# TYPE evolution_api_database_up gauge'',
         ''evolution_api_database_up 1'',
         [],
         ''# HELP evolution_api_database_response_time_ms Database response time in milliseconds'',
         ''# TYPE evolution_api_database_response_time_ms gauge'',
         ''evolution_api_database_response_time_ms 5'',
         [],
         ''# HELP evolution_api_redis_up Redis connection status (1 = up, 0 = down)'',
         ''# TYPE evolution_api_redis_up gauge'',
         ''evolution_api_redis_up 1'',
         []])
   \<and> redis_response_time_ms (metrics_of (resolved (fst (getHealthStatus sample_env world0)))) = 10
   \<and> type_lines (metric_lines metrics)
     = [''# TYPE evolution_api_uptime_seconds counter'',
        ''# TYPE evolution_api_memory_usage_bytes gauge'',
        ''# TYPE evolution_api_instances_total gauge'',
        ''# TYPE evolution_api_instances_active gauge'',
        ''# TYPE evolution_api_database_up gauge'',
        ''# TYPE evolution_api_database_response_time_ms gauge'',
        ''# TYPE evolution_api_redis_up gauge'']
   \<and> type_lines (split_lines (formatPrometheusMetrics metrics))
     = type_lines (metric_lines metrics)
   \<and> formatPrometheusMetrics (metrics\<lparr>redis_response_time_ms := t\<rparr>)
       = formatPrometheusMetrics metrics"
proof -
  have exposition: "fst (getMetrics sample_env world0)
      = Resolved (formatPrometheusMetrics
          (metrics_of (resolved (fst (getHealthStatus sample_env world0)))))"
    by (simp add: getMetrics_def getMetrics_using_eq sample_run)
  have series: "type_lines (metric_lines metrics)
     = [''# TYPE evolution_api_uptime_seconds counter'',
        ''# TYPE evolution_api_memory_usage_bytes gauge'',
        ''# TYPE evolution_api_instances_total gauge'',
        ''# TYPE evolution_api_instances_active gauge'',
        ''# TYPE evolution_api_database_up gauge'',
        ''# TYPE evolution_api_database_response_time_ms gauge'',
        ''# TYPE evolution_api_redis_up gauge'']"
    by (simp add: type_lines_def metric_lines_def)
  have frame: "formatPrometheusMetrics (metrics\<lparr>redis_response_time_ms := t\<rparr>)
       = formatPrometheusMetrics metrics"
    by (simp add: formatPrometheusMetrics_def metric_lines_def)
  have lines: "metric_lines (metrics_of (resolved (fst (getHealthStatus sample_env world0))))
     = [''# HELP evolution_api_uptime_seconds Total uptime of the application in seconds'',
         ''# TYPE evolution_api_uptime_seconds counter'',
         ''evolution_api_uptime_seconds 3600'',
         [],
         ''# HELP evolution_api_memory_usage_bytes Current memory usage in bytes'',
         ''# TYPE evolution_api_memory_usage_bytes gauge'',
         ''evolution_api_memory_usage_bytes 100000000'',
         [],
         ''# HELP evolution_api_instances_total Total number of WhatsApp instances'',
         ''# TYPE evolution_api_instances_total gauge'',
         ''evolution_api_instances_total 2'',
         [],
         ''# HELP evolution_api_instances_active Number of active WhatsApp instances'',
         ''# TYPE evolution_api_instances_active gauge'',
         ''evolution_api_instances_active 1'',
         [],
         ''# HELP evolution_api_database_up Database connection status (1 = up, 0 = down)'',
         ''# TYPE evolution_api_database_up gauge'',
         ''evolution_api_database_up 1'',
         [],
         ''# HELP evolution_api_database_response_time_ms Database response time in milliseconds'',
         ''# TYPE evolution_api_database_response_time_ms gauge'',
         ''evolution_api_database_response_time_ms 5'',
         [],
         ''# HELP evolution_api_redis_up Redis connection status (1 = up, 0 = down)'',
         ''# TYPE evolution_api_redis_up gauge'',
         ''evolution_api_redis_up 1'',
         []]"
    by (simp add: metric_lines_def metrics_of_def sample_run or_zero_def sample_numbers
        string_of_bit)
  have cache_time: "redis_response_time_ms
      (metrics_of (resolved (fst (getHealthStatus sample_env world0)))) = 10"
    by (simp add: metrics_of_def sample_run or_zero_def)
  have split: "type_lines (split_lines (formatPrometheusMetrics metrics))
     = type_lines (metric_lines metrics)"
    by (simp only: split_lines_exposition)
  from exposition lines have rendered: "fst (getMetrics sample_env world0)
     = Resolved (join [CHR 10]
        [''# HELP evolution_api_uptime_seconds Total uptime of the application in seconds'',
         ''# TYPE evolution_api_uptime_seconds counter'',
         ''evolution_api_uptime_seconds 3600'',
         [],
         ''# HELP evolution_api_memory_usage_bytes Current memory usage in bytes'',
         ''# TYPE evolution_api_memory_usage_bytes gauge'',
         ''evolution_api_memory_usage_bytes 100000000'',
         [],
         ''# HELP evolution_api_instances_total Total number of WhatsApp instances'',
         ''# TYPE evolution_api_instances_total gauge'',
         ''evolution_api_instances_total 2'',
         [],
         ''# HELP evolution_api_instances_active Number of active WhatsApp instances'',
         ''# TYPE evolution_api_instances_active gauge'',
         ''evolution_api_instances_active 1'',
         [],
         ''# HELP evolution_api_database_up Database connection status (1 = up, 0 = down)'',
         ''# TYPE evolution_api_database_up gauge'',
         ''evolution_api_database_up 1'',
         [],
         ''# HELP evolution_api_database_response_time_ms Database response time in milliseconds'',
         ''# TYPE evolution_api_database_response_time_ms gauge'',
         ''evolution_api_database_response_time_ms 5'',
         [],
         ''# HELP evolution_api_redis_up Redis connection status (1 = up, 0 = down)'',
         ''# TYPE evolution_api_redis_up gauge'',
         ''evolution_api_redis_up 1'',
         []])"
    by (simp only: formatPrometheusMetrics_def)
  from rendered cache_time series split frame show ?thesis
    by (intro conjI)
qed

section \<open>Lookups and creation in the registry\<close>

text \<open>
  Claim C6. When names are given to \<open>instanceInfo\<close> and some of them have no handle in the
  snapshot, the lookup fails with \<open>NotFound\<close>, whatever the store holds. The message
  names the missing names and no others, in the order given: \<open>Instance "a" not found\<close>
  when one is missing, \<open>Instances "a, b" not found\<close>, joined by a comma and a space, when
  several are (a name given twice counts twice).
\<close>

theorem instanceInfo_names_missing:
  assumes "names \<noteq> []" and "missing_names snap names \<noteq> []"
  shows "instanceInfo st clientName snap (Some names)
           = Inl (NotFoundException
               (if length (missing_names snap names) = 1
                then ''Instance '' @ quoted (hd (missing_names snap names)) @ '' not found''
                else ''Instances '' @ quoted (join '', '' (missing_names snap names))
                       @ '' not found''))
     \<and> set (missing_names snap names) = set names - dom snap"
proof -
  let ?missing = "missing_names snap names"
  have message: "not_found_message ?missing
      = (if length ?missing = 1
         then ''Instance '' @ quoted (hd ?missing) @ '' not found''
         else ''Instances '' @ quoted (join '', '' ?missing) @ '' not found'')"
  proof (cases ?missing)
    case Nil
    with assms show ?thesis by simp
  next
    case (Cons a rest)
    then show ?thesis
      by (cases rest) (simp_all add: not_found_message_def)
  qed
  have "instanceInfo st clientName snap (Some names)
      = Inl (NotFoundException (not_found_message ?missing))"
    using assms by (simp add: instanceInfo_def missing_names_def)
  moreover have "set ?missing = set names - dom snap"
    by (auto simp add: missing_names_def)
  ultimately show ?thesis
    by (simp only: message simp_thms)
qed

text \<open>
  The two tests of the repository: two names that do not exist, and one missing name
  beside a loaded one.
\<close>

theorem instanceInfo_names_missing_witness:
  "instanceInfo sample_store ''evolution_test'' Map.empty
      (Some [''non-existent-1'', ''non-existent-2''])
     = Inl (NotFoundException
         (''Instances '' @ [CHR 0x22] @ ''non-existent-1, non-existent-2'' @ [CHR 0x22]
            @ '' not found''))
   \<and> instanceInfo sample_store ''evolution_test'' [''test-instance'' \<mapsto> sample_data]
      (Some [''test-instance'', ''non-existent-instance''])
     = Inl (NotFoundException
         (''Instance '' @ [CHR 0x22] @ ''non-existent-instance'' @ [CHR 0x22]
            @ '' not found''))"
  using instanceInfo_names_missing
      [of "[''non-existent-1'', ''non-existent-2'']" Map.empty sample_store "''evolution_test''"]
    instanceInfo_names_missing
      [of "[''test-instance'', ''non-existent-instance'']"
          "[''test-instance'' \<mapsto> sample_data]" sample_store "''evolution_test''"]
  by (simp add: missing_names_def quoted_def)

text \<open>
  Claim C7. When the store has no record for the given id or number, \<open>instanceInfoById\<close>
  fails with \<open>NotFound\<close> and the message carries that id or number. When it has a record
  whose name has no handle in the snapshot, the lookup fails with the same kind of error
  and the message carries the record's name.
\<close>

theorem instanceInfoById_not_found:
  "(store_findFirst st k = Inr None
      \<longrightarrow> instanceInfoById st clientName snap k
          = Inl (NotFoundException (''Instance '' @ quoted (key_text k) @ '' not found'')))
   \<and> (\<forall>r. store_findFirst st k = Inr (Some r) \<and> snap (rec_name r) = None
      \<longrightarrow> instanceInfoById st clientName snap k
          = Inl (NotFoundException (''Instance '' @ quoted (rec_name r) @ '' not found'')))"
  by (simp add: instanceInfoById_def not_found_message_def)

text \<open>
  The three tests of the repository: an unknown id, an unknown number, and the id of a
  persisted instance that is not loaded.
\<close>

theorem instanceInfoById_not_found_witness:
  "store_findFirst sample_store (By_id ''non-existent-id'') = Inr None
   \<and> instanceInfoById sample_store ''evolution_test'' Map.empty (By_id ''non-existent-id'')
       = Inl (NotFoundException
           (''Instance '' @ [CHR 0x22] @ ''non-existent-id'' @ [CHR 0x22] @ '' not found''))
   \<and> instanceInfoById sample_store ''evolution_test'' Map.empty (By_number ''999999999'')
       = Inl (NotFoundException
           (''Instance '' @ [CHR 0x22] @ ''999999999'' @ [CHR 0x22] @ '' not found''))
   \<and> store_findFirst sample_store (By_id ''test-id'') = Inr (Some sample_record)
   \<and> rec_name sample_record = ''test-instance''
   \<and> instanceInfoById sample_store ''evolution_test'' Map.empty (By_id ''test-id'')
       = Inl (NotFoundException
           (''Instance '' @ [CHR 0x22] @ ''test-instance'' @ [CHR 0x22] @ '' not found''))"
  using instanceInfoById_not_found
      [of sample_store "By_id ''non-existent-id''" "''evolution_test''" Map.empty]
    instanceInfoById_not_found
      [of sample_store "By_number ''999999999''" "''evolution_test''" Map.empty]
    instanceInfoById_not_found
      [of sample_store "By_id ''test-id''" "''evolution_test''" Map.empty]
  by (simp add: sample_store_def sample_record_def record_of_def sample_data_def key_text_def
      quoted_def)



end
